theory Spec2Isabelle
  imports Complex_Main "HOL-Library.Sublist"
begin

section \<open>Python values and string operations\<close>

text \<open>
  The scoring engine of \<^verbatim>\<open>app/mbti_test/domain/analyzer.py\<close> works on Python strings.
  A Python \<^verbatim>\<open>str\<close> is a sequence of Unicode code points and \<^verbatim>\<open>len\<close> counts code
  points, so an answer is a list of code points. Every non-ASCII literal of the source
  (keywords, marker words, regular expressions) is given below code point by code point,
  as the source file holds it. The file stores its Korean text doubly encoded (a byte of
  the UTF-8 form appears as a character of its own, and a few bytes are missing), and the
  literals are taken as they stand: what Python compares is these code points. Dimension
  names (\<^verbatim>\<open>"EI"\<close>) and trait letters (\<^verbatim>\<open>"E"\<close>) are ASCII and are kept as
  \<^typ>\<open>string\<close> and \<^typ>\<open>char\<close>.
\<close>

type_synonym pystr = "nat list"

text \<open>
  An entry of an answer list: a string, or one of the non-text values a JSON body can
  carry. \<^verbatim>\<open>word in ans\<close>, \<^verbatim>\<open>re.search(p, ans)\<close> and \<^verbatim>\<open>len(ans)\<close> raise
  \<^verbatim>\<open>TypeError\<close> on \<^verbatim>\<open>None\<close> and on an \<^verbatim>\<open>int\<close>.
\<close>

datatype pyval = PyStr pystr | PyNone | PyInt int

datatype py_error = TypeError | ValueError

text \<open>\<^verbatim>\<open>sub in s\<close>: \<open>sub\<close> occurs in \<open>s\<close> as a contiguous substring.\<close>

fun py_in :: "pystr \<Rightarrow> pystr \<Rightarrow> bool" where
  "py_in sub [] = (sub = [])"
| "py_in sub (c # cs) = (prefix sub (c # cs) \<or> py_in sub cs)"

text \<open>
  \<^verbatim>\<open>s.count(sub)\<close>: the number of non-overlapping occurrences, scanning from the left
  (\<^verbatim>\<open>len(s) + 1\<close> for the empty \<open>sub\<close>).
\<close>

function py_count :: "pystr \<Rightarrow> pystr \<Rightarrow> nat" where
  "py_count sub s =
     (if sub = [] then length s + 1
      else if length s < length sub then 0
      else if take (length sub) s = sub then 1 + py_count sub (drop (length sub) s)
      else py_count sub (tl s))"
  by pat_completeness auto
termination
  by (relation "measure (\<lambda>(sub, s). length s)") (auto simp: neq_Nil_conv)

declare py_count.simps [simp del]

text \<open>\<^verbatim>\<open>sum(w in ans for w in words)\<close>: a sum of booleans, one per list entry.\<close>

definition sum_in :: "pystr list \<Rightarrow> pystr \<Rightarrow> int" where
  "sum_in words ans = sum_list (map (\<lambda>w. if py_in w ans then 1 else 0) words)"

text \<open>\<^verbatim>\<open>any(word in ans for word in words)\<close>.\<close>

definition any_in :: "pystr list \<Rightarrow> pystr \<Rightarrow> bool" where
  "any_in words ans = list_ex (\<lambda>word. py_in word ans) words"

text \<open>\<^verbatim>\<open>sum(ans.count(e) for e in es)\<close>.\<close>

definition sum_count :: "pystr list \<Rightarrow> pystr \<Rightarrow> int" where
  "sum_count es ans = sum_list (map (\<lambda>e. int (py_count e ans)) es)"

text \<open>
  \<^verbatim>\<open>re.search(pattern, s)\<close> for the patterns of this module. Each of them is a
  disjunction \<^verbatim>\<open>a|b|c\<close> of literal fragments with no other metacharacter, so the
  search succeeds exactly when one of the fragments occurs in \<open>s\<close>. A pattern is kept as
  the list of its alternatives.
\<close>

definition re_search :: "pystr list \<Rightarrow> pystr \<Rightarrow> bool" where
  "re_search alternatives s = list_ex (\<lambda>p. py_in p s) alternatives"

section \<open>The static tables\<close>

text \<open>
  \<^verbatim>\<open>DICTIONARY\<close> maps a dimension to its two traits and each trait to a list of
  \<^verbatim>\<open>{"word": ..., "w": ...}\<close> entries. Python dictionaries iterate in insertion order, so
  both levels are association lists in the order of the source.
\<close>

type_synonym keyword = "pystr \<times> int"

definition DICTIONARY_EI_E :: "keyword list" where
  "DICTIONARY_EI_E =
    [
     ([0xEA, 0xB0, 0x2122, 0xEC, 0xB4], 5), ([0xEC, 0x201A, 0xAC, 0xEB, 0x152], 3),
     ([0xEB, 0xAA, 0xA8, 0xEC, 0x201E], 5), ([0xEB, 0x2013, 0xA0, 0xEB, 0x201C, 0xA4], 3),
     ([0xEB, 0xA7, 0x152, 0xEB, 0x201A, 0x2DC], 4), ([0xEC, 0xB9, 0x153, 0xEA, 0xB5, 0xAC, 0xEB, 0x201C, 0xA4], 5),
     ([0xEB, 0x2039, 0xA4, 0xEA, 0xB0, 0x2122, 0xEC, 0xB4], 5), ([0xEC, 0x2014, 0xAC, 0xEB, 0x178, 0xBF, 0xEC, 0xB4], 5),
     ([0xED, 0x152, 0x152, 0xED, 0x2039, 0xB0], 4), ([0xEC, 0x2C6, 0xA0, 0xEC, 0xEB, 0xA6, 0xAC], 4),
     ([0xED, 0x161, 0x152, 0xEC, 0x2039], 4), ([0xEB, 0xB2, 0x2C6, 0xEA, 0xB0, 0x153], 5),
     ([0xEB, 0x201A, 0x2DC, 0xEA, 0xB0, 0x20AC], 3), ([0xEB, 0xB0, 0x2013, 0xEC, 0x2014], 3),
     ([0xEC, 0x2122, 0xB8, 0xEC, 0xB6, 0x153], 3), ([0xEC, 0x2022, 0xBD, 0xEC, 0x2020], 4),
     ([0xEB, 0xA7, 0x152, 0xEB, 0x201A, 0xA8], 4), ([0xEB, 0x152, 0x20AC, 0xED, 0x2122, 0x201D], 3),
     ([0xEC, 0x2C6, 0x2DC, 0xEB, 0x2039, 0xA4], 5), ([0xED, 0x2020, 0xA1], 3),
     ([0xEC, 0xA0, 0x201E, 0xED, 0x2122, 0x201D], 3), ([0xEC, 0x2014, 0xB0, 0xEB, 0xBD], 3),
     ([0xEB, 0x2020, 0x20AC], 4), ([0xED, 0x2022, 0xA8, 0xEA, 0xBB, 0x2DC], 4),
     ([0xEC, 0x161, 0xB0, 0xEB, 0xA6, 0xAC], 3), ([0xEB, 0x2039, 0xA4, 0xEB, 0x201C, 0xA4], 3),
     ([0xED, 0x2122, 0x153, 0xEB, 0xB0, 0x153], 4), ([0xEC, 0x2039, 0x153, 0xEB, 0x152], 4),
     ([0xEC, 0x2122, 0xEC, 0xEC, 0xA7, 0x20AC, 0xEA, 0xBB, 0x201E], 5), ([0xEB, 0x2013, 0xA0, 0xEB, 0x201C, 0xA4, 0xEC, 0xA9], 5)
    ]"

definition DICTIONARY_EI_I :: "keyword list" where
  "DICTIONARY_EI_I =
    [
     ([0xED, 0x2DC, 0xBC, 0xEC], 5), ([0xEC, 0xA1, 0xB0, 0xEC, 0x161, 0xA9], 4),
     ([0xEC, 0xA7, 0x2018, 0xEC, 0x2014], 5), ([0xEC, 0x192, 0xEA, 0xB0], 3),
     ([0xEA, 0xB8, 0xB0, 0xEB, 0xB9, 0xA8, 0xEB, 0xA0, 0xA4], 5), ([0xEC, 0xB4, 0xEC, 0x2013, 0xB4, 0xED, 0xB0], 4),
     ([0xEC, 0xA7, 0x2018, 0xEC, 0xBD, 0x2022], 5), ([0xEB, 0xB0, 0xA9, 0xEC, 0xBD, 0x2022], 5),
     ([0xEC, 0x2030, 0xAC, 0xEA, 0xB3, 0xA0], 3), ([0xEC, 0xB6, 0xA9, 0xEC, 0xA0, 0x201E], 4),
     ([0xED, 0x153, 0xB4, 0xEC, 0x2039], 3), ([0xED, 0x201D, 0xBC, 0xEA, 0xB3, 0xA4], 4),
     ([0xEA, 0xB7, 0x20AC, 0xEC, 0xB0, 0xAE], 4), ([0xEB, 0x201A, 0x2DC, 0xEB, 0xA7, 0x152], 4),
     ([0xED, 0x2DC, 0xBC, 0xEC, 0xEB, 0xA7, 0x152], 5), ([0xEA, 0xB3, 0xA0, 0xEC, 0x161, 0x201D], 4),
     ([0xEC, 0xA1, 0xB0, 0xEC, 0x161, 0xA9, 0xED, 0x2C6], 4), ([0xEC, 0xB0, 0xA8, 0xEB, 0xB6, 0x201E], 4),
     ([0xEC, 0x20AC, 0xEB, 0x2018, 0x201D], 5), ([0xEB, 0xB0, 0xA9, 0xEA, 0xB5, 0xAC, 0xEC, 0x201E], 5),
     ([0xEC, 0xB9, 0xA8, 0xEB, 0x152, 0x20AC], 3), ([0xEC, 0xA7, 0x2018, 0xEC, 0x2C6, 0x153, 0xEC, 0xB4], 5),
     ([0xEC, 0xA7, 0x2018, 0xEB, 0x152, 0xEC, 0xB4], 5), ([0xEC, 0xB8, 0xEC, 0x2039, 0xB8, 0x20, 0xEC, 0x2022, 0x201E, 0xEB, 0x2039, 0x152], 5),
     ([0xEC, 0xA1, 0xB0, 0xEC, 0x161, 0xA9, 0xED, 0x2022, 0x153], 4), ([0xEA, 0xB9, 0x160, 0xEC, 0xB4], 3),
     ([0xEB, 0x201A, 0xB4, 0xEB, 0xA9, 0xB4], 4), ([0xEC, 0x201A, 0xAC, 0xEC, 0x192, 0x2030], 4),
     ([0xEB, 0xAA, 0x2026, 0xEC, 0x192], 4), ([0xEB, 0x2026, 0xEC, 0x201E, 0x153], 3)
    ]"

definition DICTIONARY_SN_S :: "keyword list" where
  "DICTIONARY_SN_S =
    [
     ([0xEC, 0x201A, 0xAC, 0xEC, 0x2039, 0xA4], 5), ([0xED, 0x2DC, 0x201E, 0xEC, 0x2039, 0xA4], 4),
     ([0xEA, 0xB2, 0xBD, 0xED, 0x2014, 0x2DC], 4), ([0xEC, 0xA7, 0xEC, 0xA0, 0x2018], 3),
     ([0xEA, 0xB5, 0xAC, 0xEC, 0xB2, 0xB4, 0xEC, 0xA0], 5), ([0xED, 0x152, 0xA9, 0xED, 0x160, 0xB8], 3),
     ([0xEC, 0x2039, 0xA4, 0xEC, 0xA0, 0x153, 0xEB, 0xA1, 0x153], 4), ([0xEB, 0xB3, 0xB8], 3),
     ([0xEB, 0x201C, 0xA4, 0xEC, 0x20AC], 3), ([0xED, 0x2022, 0xB4, 0xEB, 0xB4, 0xA4], 4),
     ([0xEA, 0xB2, 0xAA, 0xEC, 0x20AC], 4), ([0xEB, 0x2039, 0xB9, 0xEC, 0xA5], 4),
     ([0xEC, 0xA7, 0x20AC, 0xEA, 0xB8, 0x2C6], 3), ([0xED, 0x2DC, 0x201E, 0xEC, 0xAC], 3),
     ([0xEC, 0x2039, 0xA4, 0xEC, 0xA7, 0x2C6, 0xEC, 0xA0], 5), ([0xEC, 0x2039, 0xA4, 0xEC, 0x161, 0xA9, 0xEC, 0xA0], 5),
     ([0xED, 0x161, 0xA8, 0xEC, 0x153, 0xA8, 0xEC, 0xA0], 4), ([0xEA, 0xB5, 0xAC, 0xEC, 0xB2, 0xB4, 0xEC, 0xA0, 0xEC, 0x153, 0xBC, 0xEB, 0xA1, 0x153], 5),
     ([0xEC, 0xA0, 0x2022, 0xED, 0x2122, 0x2022, 0xED, 0x2C6], 4), ([0xED, 0x2122, 0x2022, 0xEC, 0x2039, 0xA4, 0xED, 0x2C6], 4),
     ([0xEB, 0xB6, 0x201E, 0xEB, 0xAA, 0x2026, 0xED, 0x2C6], 4), ([0xEC, 0xA6, 0xEA, 0xB1, 0xB0], 4),
     ([0xEB, 0xB0, 0xEC, 0xB4, 0xED, 0x201E, 0xB0], 4), ([0xED, 0x2020, 0xB5, 0xEA, 0xB3, 0x201E], 4),
     ([0xEC, 0x2039, 0xA4, 0xEC, 0xA0, 0x201E], 4), ([0xEC, 0x2039, 0xA4, 0xEC, 0x192, 0xED, 0x2122, 0x153], 4),
     ([0xEC, 0x2039, 0xA4, 0xEB, 0xAC, 0xB4], 4), ([0xED, 0x2DC, 0x201E, 0xEC, 0xA5], 4),
     ([0xEC, 0x2039, 0xA4, 0xEC, 0xB2, 0xB4], 4), ([0xEB, 0xAA, 0x2026, 0xED, 0x2122, 0x2022], 4),
     ([0xEC, 0x201E, 0xB8, 0xEB, 0xB6, 0x20AC], 4), ([0xEB, 0x201D, 0x201D, 0xED, 0x2026, 0x152, 0xEC, 0xBC], 4),
     ([0xEB, 0x2C6, 0x2C6, 0xEC, 0x2014, 0x20, 0xEB, 0xB3, 0xB4, 0xEC, 0xB4, 0xEB, 0x160, 0x201D], 5), ([0xEB, 0xA7, 0x152, 0xEC, 0xA0, 0xB8, 0xEB, 0xB3, 0xB8], 4),
     ([0xEA, 0xB2, 0xBD, 0xED, 0x2014, 0x2DC, 0xEC, 0x192], 5), ([0xEA, 0xB3, 0xBC, 0xEA, 0xB1, 0xB0, 0xEC, 0x2014], 3)
    ]"

definition DICTIONARY_SN_N :: "keyword list" where
  "DICTIONARY_SN_N =
    [
     ([0xEC, 0x2DC, 0xEB, 0xAF, 0xB8], 5), ([0xEC, 0x192, 0xEC, 0x192], 5),
     ([0xEB, 0xAF, 0xB8, 0xEB, 0x2DC], 4), ([0xEA, 0xB0, 0x20AC, 0xEB, 0x160, 0xA5, 0xEC, 0x201E, 0xB1], 5),
     ([0xEB, 0xA7, 0x152, 0xEC, 0x2022, 0xBD, 0xEC, 0x2014], 5), ([0xEB, 0xB9, 0x201E, 0xEC, 0x153, 0xA0], 3),
     ([0xEC, 0xB6, 0x201D, 0xEC, 0x192], 4), ([0xEC, 0xB4, 0xEB, 0xA1, 0xA0], 4),
     ([0xEA, 0xB0, 0x153, 0xEB, 0x2026], 4), ([0xEC, 0x2022, 0x201E, 0xEC, 0xB4, 0xEB, 0x201D, 0x201D, 0xEC, 0x2013, 0xB4], 5),
     ([0xEC, 0x2DC, 0xEA, 0xB0], 5), ([0xEC, 0xA7, 0xEA, 0xB4, 0x20AC], 4),
     ([0xEB, 0x160, 0xEB, 0x201A, 0x152], 3), ([0xEB, 0xAD, 0x201D, 0xEA, 0xB0, 0x20AC], 3),
     ([0xEC, 0x2013, 0xB4, 0xEC, 0xA9, 0x152, 0xEB, 0xA9, 0xB4], 4), ([0xEB, 0x201A, 0x2DC, 0xEC, 0xA4, 0x2018, 0xEC, 0x2014], 3),
     ([0xEC, 0x2013, 0xB8, 0xEC, 0xA0, 0xA0, 0xEA, 0xB0, 0x20AC], 4), ([0xEA, 0xB2, 0xB0, 0xEA, 0xB5, 0xAD], 3),
     ([0xEB, 0xB3, 0xB8, 0xEC, 0xA7, 0x2C6], 5), ([0xEC, 0x2039, 0xAC, 0xEC, 0xB8, 0xB5], 4),
     ([0xEA, 0xB7, 0xBC, 0xEB, 0xB3, 0xB8], 4), ([0xEC, 0xB2, 0xA0, 0xED, 0x2022, 0x2122], 5),
     ([0xEA, 0xB9, 0x160, 0xEC, 0x20AC], 4), ([0xEC, 0x2C6, 0xA8, 0xEC, 0x20AC], 4),
     ([0xED, 0x152, 0xA8, 0xED, 0x201E, 0xB4], 4), ([0xEC, 0x2014, 0xB0, 0xEA, 0xB2, 0xB0], 4),
     ([0xEA, 0xB4, 0x20AC, 0xEA, 0xB3, 0x201E], 3), ([0xEC, 0x192, 0xEC, 0xA7, 0x2022], 4),
     ([0xEC, 0x20AC, 0xEC, 0x153, 0xA0], 4), ([0xEC, 0xB0, 0xBD, 0xEC, 0x2DC], 5),
     ([0xED, 0x2DC, 0xEC, 0x2039, 0xA0], 5), ([0xEB, 0xB9, 0x201E, 0xEC, 0xA0, 0x201E], 5),
     ([0xEA, 0xBF, 0x2C6], 4), ([0xEC, 0xB4, 0xEC, 0x192], 4),
     ([0xED, 0x2020, 0xB5, 0xEC, 0xB0, 0xB0], 5), ([0xED, 0x2022, 0xB4, 0xEC, 0x201E], 4),
     ([0xEC, 0x2022, 0x201D, 0xEC, 0x2039, 0x153], 4), ([0xED, 0x2022, 0xA8, 0xEC, 0x2DC], 5),
     ([0xEC, 0x192, 0x2C6, 0xEB, 0xA1, 0x153, 0xEC, 0x161, 0xB4], 4)
    ]"

definition DICTIONARY_TF_T :: "keyword list" where
  "DICTIONARY_TF_T =
    [
     ([0xEC, 0xB4, 0xEC, 0x153, 0xA0], 5), ([0xEC, 0x203A, 0xEC, 0xB8], 5),
     ([0xEB, 0x2026, 0xBC, 0xEB, 0xA6, 0xAC], 5), ([0xEB, 0xB6, 0x201E, 0xEC, 0x201E], 4),
     ([0xEC, 0x2122, 0x153], 5), ([0xED, 0x2022, 0xB4, 0xEA, 0xB2, 0xB0], 4),
     ([0xEB, 0xB3, 0xB4, 0xED, 0x2014, 0x2DC], 5), ([0xED, 0x2022, 0xA9, 0xEB, 0xA6, 0xAC], 5),
     ([0xED, 0x161, 0xA8, 0xEC, 0x153, 0xA8], 4), ([0xEA, 0xB0, 0xEA, 0xB4, 0x20AC], 5),
     ([0xED, 0x152, 0xEB, 0x2039, 0xA8], 4), ([0xED, 0x2030, 0xEA, 0xB0, 0x20AC], 4),
     ([0xEA, 0xB8, 0xB0, 0xEC, 0xA4, 0x20AC], 4), ([0xEC, 0xA0, 0x2022, 0xED, 0x2122, 0x2022], 4),
     ([0xEC, 0x201A, 0xAC, 0xEC, 0x2039, 0xA4], 3), ([0xEC, 0xA6, 0xEB, 0xAA, 0x2026], 4),
     ([0xEA, 0xB7, 0xBC, 0xEA, 0xB1, 0xB0], 5), ([0xED, 0x192, 0x20AC, 0xEB, 0x2039, 0xB9], 5),
     ([0xEB, 0x2026, 0xBC, 0xEC, 0xA6], 5), ([0xEA, 0xB2, 0xB0, 0xEB, 0xA1, 0xA0], 4),
     ([0xEC, 0xB6, 0x201D, 0xEB, 0xA1, 0xA0], 4), ([0xEC, 0xB8, 0xEA, 0xB3, 0xBC], 5),
     ([0xEC, 0xB2, 0xB4, 0xEA, 0xB3, 0x201E], 4), ([0xEA, 0xB5, 0xAC, 0xEC, 0xA1, 0xB0], 4),
     ([0xEC, 0x2039, 0x153, 0xEC, 0x160, 0xA4, 0xED, 0x2026, 0x153], 4), ([0xEB, 0xB0, 0xA9, 0xEB, 0xB2, 0x2022], 3),
     ([0xEC, 0xA0, 0x201E, 0xEB, 0xB5], 4), ([0xEA, 0xB3, 0x201E, 0xED, 0x161, 0xEC, 0xA0], 4),
     ([0xEB, 0x192, 0x2030, 0xEC, 0xA0, 0x2022], 5), ([0xEB, 0x192, 0x2030, 0xEC, 0xB2, 0xA0], 5),
     ([0xEC, 0xB4, 0xEC, 0x201E, 0xB1], 5), ([0xEC, 0x2039, 0xA4, 0xEB, 0xA6, 0xAC], 4),
     ([0xEB, 0x201C, 0xEC, 0x2039, 0xA4], 5), ([0xEC, 0x2020, 0xEC, 0xB5], 5),
     ([0xEB, 0x201D, 0xB0, 0xEC, 0xA0, 0xB8], 5), ([0xEA, 0xB3, 0x201E, 0xEC, 0x201A, 0xB0], 4),
     ([0xEC, 0x2013, 0xB4, 0xEB, 0x2013, 0xBB, 0xEA, 0xB2, 0x152], 4), ([0xEB, 0xB0, 0xA9, 0xEC, 0x2039], 3),
     ([0xEC, 0x2C6, 0x2DC, 0xEB, 0x2039, 0xA8], 4), ([0xEC, 0xA0, 0x2C6, 0xEC, 0xB0, 0xA8], 4),
     ([0xEA, 0xB7, 0x153, 0xEC, 0xB9, 0x2122], 4), ([0xEC, 0x203A, 0xEB, 0xA6, 0xAC], 4),
     ([0xEB, 0xB2, 0x2022, 0xEC, 0xB9, 0x2122], 4), ([0xEC, 0x2020, 0x201D, 0xEC, 0xA7, 0xED, 0x2C6], 3),
     ([0xEC, 0x2013, 0xB4, 0xEC, 0xB4, 0xEC, 0x2014, 0x2020], 4), ([0xED, 0x2122, 0xA9, 0xEB, 0x2039, 0xB9], 4),
     ([0xEB, 0xAD, 0x201D, 0xEB, 0xA7], 3), ([0xEB, 0x2039, 0xB9, 0xEC, 0x2014, 0xB0], 4),
     ([0xEC, 0x2022, 0x201E, 0xEB, 0x2039, 0x2C6, 0xEC, 0xA7, 0x20AC], 3), ([0xED, 0x152, 0xA9, 0xED, 0xAD], 5),
     ([0xEC, 0xA7, 0xEC, 0x201E, 0xA4], 5), ([0xED, 0xBD, 0xEC, 0xB4, 0xEB, 0x201A, 0x2DC], 4),
     ([0xEC, 0x203A, 0x192, 0xEA, 0xB8, 0xB0], 3), ([0xEB, 0xA7, 0xEB, 0x201E, 0xEC, 0x2022, 0x2C6], 4),
     ([0xEB, 0x152, 0x20AC, 0xEC, 0x2039, 0xA0], 3), ([0xED, 0x2022, 0xB4, 0xEC, 0xA3, 0xBC], 3),
     ([0xEA, 0xB0, 0x153, 0xEC, 0x201E, 0xA0], 5), ([0xEC, 0x2C6, 0x2DC, 0xEC, 0xA0, 0x2022], 4),
     ([0xEC, 0x153, 0xA1, 0xED, 0x2022, 0x2DC, 0xEC, 0x203A, 0xEC, 0xB9, 0x2122], 5), ([0xEB, 0x201D, 0xB0, 0xEB, 0xBC], 3),
     ([0xEB, 0xB9, 0x201E, 0xED, 0x161, 0xA8, 0xEC, 0x153, 0xA8], 5), ([0xEC, 0xB5, 0x153, 0xEC, 0xA0], 5),
     ([0xEB, 0x2039, 0xA4, 0xEB, 0xA5, 0xB4, 0xEC, 0xA7, 0x20AC, 0xEC, 0x2022, 0x160], 4), ([0xEC, 0x2014, 0xEB, 0x201D, 0xB0, 0xEB, 0xBC], 3)
    ]"

definition DICTIONARY_TF_F :: "keyword list" where
  "DICTIONARY_TF_F =
    [
     ([0xEA, 0xB8, 0xB0, 0xEB, 0xB6, 0x201E], 5), ([0xEB, 0xA7, 0x2C6, 0xEC, 0x152], 5),
     ([0xEA, 0xB3, 0xB5, 0xEA, 0xB0], 5), ([0xEC, 0x201E, 0x153, 0xEC, 0x161, 0xB4], 4),
     ([0xEA, 0xB0, 0xEC, 0xA0, 0x2022], 5), ([0xEC, 0x2020, 0xEC, 0x192], 5),
     ([0xEC, 0x2013, 0xB4, 0xEB, 0x2013, 0xA1, 0xED, 0x2022, 0xB4], 5), ([0xEB, 0x160, 0xEB, 0x201A, 0x152], 4),
     ([0xEA, 0xB0, 0xEC, 0x201E, 0xB1], 5), ([0xEC, 0xA0, 0x2022, 0xEC, 0x201E, 0x153], 4),
     ([0xEC, 0x153, 0x201E, 0xEB, 0xA1, 0x153], 5), ([0xED, 0xEB, 0xA7], 5),
     ([0xEB, 0x201D, 0xB0, 0xEB, 0x153, 0xBB], 4), ([0xEB, 0xB0, 0xB0, 0xEB, 0xA0, 0xA4], 5),
     ([0xEC, 0xA1, 0xB4, 0xEC, 0xA4, 0x2018], 4), ([0xEC, 0xB4, 0xED, 0x2022, 0xB4], 4),
     ([0xEA, 0xB3, 0xA0, 0xEB, 0xAF, 0xBC], 4), ([0xEA, 0xB1, 0xB1, 0xEC, 0xA0, 0x2022], 4),
     ([0xEB, 0xB6, 0x2C6, 0xEC, 0x2022, 0x2C6], 4), ([0xEC, 0x160, 0xAC, 0xED, 0x201D, 0x201D], 4),
     ([0xEA, 0xB8, 0xB0, 0xEC, 0xA8], 3), ([0xED, 0x2013, 0x2030, 0xEB, 0xB3, 0xB5], 3),
     ([0xEC, 0x201A, 0xAC, 0xEB, 0x2018], 4), ([0xEC, 0xA2, 0x2039, 0xEC, 0x2022, 0x201E], 3),
     ([0xEC, 0x2039, 0xAB, 0xEC, 0x2013, 0xB4], 3), ([0xED, 0x2122, 0x201D, 0xEB, 0x201A, 0x2DC], 4),
     ([0xEC, 0xA7, 0x153, 0xEC, 0xA6], 4), ([0xEB, 0x2039, 0xB5, 0xEB, 0x2039, 0xB5], 4),
     ([0xEC, 0x2013, 0xB5, 0xEC, 0x161, 0xB8], 5), ([0xEB, 0xAF, 0xB8, 0xEC, 0x2022, 0x2C6], 4),
     ([0xEA, 0xB3, 0xA0, 0xEB, 0xA7, 0x2C6], 4), ([0xEA, 0xB0, 0xEB, 0x2122], 5),
     ([0xEB, 0x2C6, 0x2C6, 0xEB, 0xAC, 0xBC], 5), ([0xEC, 0x161, 0xB8], 4),
     ([0xEC, 0x2022, 0x201E, 0xED, 0x201D, 0x201D], 4), ([0xEC, 0x192, 0xEC, 0xB2, 0x2DC], 5),
     ([0xEC, 0xB9, 0x2DC, 0xEC, 0x153, 0xA0], 5), ([0xEB, 0xA7, 0x2C6, 0xEC, 0x152, 0xEC, 0xB4], 5),
     ([0xEA, 0xB0, 0x20AC, 0xEC, 0x160, 0xB4], 4), ([0xEC, 0x2039, 0xAC, 0xEC, 0xA0, 0x2022], 5),
     ([0xEA, 0xB0, 0xEC, 0xA0, 0x2022, 0xEC, 0xA0], 5), ([0xEC, 0xB8, 0xEA, 0xB0, 0x201E, 0xEC, 0xA0], 5),
     ([0xEB, 0x201D, 0xB0, 0xEB, 0x153, 0xBB, 0xED, 0x2022, 0x153], 5), ([0xEA, 0xB3, 0xB5, 0xEA, 0xB0, 0xED, 0x2022, 0xB4], 5),
     ([0xEC, 0x153, 0x201E, 0xEB, 0xA1, 0x153, 0xED, 0x2022, 0xB4], 5), ([0xED, 0x2DC, 0xEB, 0x201C, 0xA4], 4),
     ([0xEC, 0x2022, 0x2C6, 0xEC, 0x201C, 0xB0, 0xEB, 0x178, 0xAC], 5), ([0xEB, 0xB6, 0x2C6, 0xEC, 0x152], 4),
     ([0xEC, 0xB8, 0xA1, 0xEC, 0x20AC], 5), ([0xEA, 0xB8, 0xB0, 0xEB, 0xBB], 4),
     ([0xEC, 0xA7, 0x201E, 0xEC, 0x2039, 0xAC], 4), ([0xEC, 0x161, 0xB0, 0xEC, 0x161, 0xB8], 5),
     ([0xED, 0x2DC, 0xEB, 0x201A, 0xB4], 5), ([0xEA, 0xB4, 0x153, 0xEC, 0xB0, 0xAE], 4),
     ([0xEC, 0x2018, 0xEC, 0x203A], 5), ([0xEC, 0xB0, 0xA9, 0xED, 0x2022, 0x2DC], 3)
    ]"

definition DICTIONARY_JP_J :: "keyword list" where
  "DICTIONARY_JP_J =
    [
     ([0xEA, 0xB3, 0x201E, 0xED, 0x161], 5), ([0xEC, 0xA0, 0x2022, 0xEB, 0xA6, 0xAC], 4),
     ([0xEB, 0xAF, 0xB8, 0xEB, 0xA6, 0xAC], 5), ([0xED, 0x2122, 0x2022, 0xEC, 0xA0, 0x2022], 4),
     ([0xEB, 0xA6, 0xAC, 0xEC, 0x160, 0xA4, 0xED, 0x160, 0xB8], 5), ([0xEC, 0x2DC, 0x2C6, 0xEC, 0x2022, 0xBD], 4),
     ([0xEC, 0x160, 0xA4, 0xEC, 0xBC, 0x20AC, 0xEC, 0xA4, 0x201E], 5), ([0xEC, 0xBC, 0xEC, 0xA0, 0x2022], 5),
     ([0xEC, 0xB2, 0xB4, 0xED, 0xAC], 4), ([0xEC, 0xA4, 0x20AC, 0xEB, 0xB9, 0x201E], 4),
     ([0xEC, 0x201A, 0xAC, 0xEC, 0xA0, 0x201E], 4), ([0xEB, 0xAF, 0xB8, 0xEB, 0xA6, 0xAC, 0xEB, 0xAF, 0xB8, 0xEB, 0xA6, 0xAC], 5),
     ([0xEC, 0x2DC, 0x2C6, 0xEC, 0xA0, 0x2022], 4), ([0xEC, 0xA0, 0x2022, 0xED, 0x2022, 0xB4], 4),
     ([0xEA, 0xB2, 0xB0, 0xEC, 0xA0, 0x2022], 4), ([0xED, 0x2122, 0x2022, 0xEC, 0x2039, 0xA4], 4),
     ([0xEC, 0xA0, 0x2022, 0xED, 0x2122, 0x2022], 3), ([0xEB, 0xAA, 0x2026, 0xED, 0x2122, 0x2022], 3),
     ([0xEC, 0xB2, 0xB4, 0xEA, 0xB3, 0x201E], 4), ([0xEC, 0x2C6, 0x153, 0xEC, 0x201E, 0x153], 4),
     ([0xEB, 0x2039, 0xA8, 0xEA, 0xB3, 0x201E], 4), ([0xEA, 0xB7, 0x153, 0xEC, 0xB9, 0x2122], 4),
     ([0xEC, 0x203A, 0xEC, 0xB9, 0x2122], 4), ([0xEA, 0xB8, 0xB0, 0xEC, 0xA4, 0x20AC], 3),
     ([0xEC, 0xA0, 0x2022, 0xEB, 0x2C6], 4), ([0xEC, 0xA0, 0x2022, 0xEB, 0xA0, 0xAC], 4),
     ([0xEB, 0xB6, 0x201E, 0xEB, 0xA5, 0x2DC], 4), ([0xEB, 0xA7, 0x2C6, 0xEA, 0xB0], 4),
     ([0xEB, 0xB0, 0xEB, 0x201C, 0x153, 0xEB, 0xBC, 0xEC, 0xB8], 5), ([0xEA, 0xB8, 0xB0, 0xED, 0x2022, 0x153], 4),
     ([0xEC, 0x2039, 0x153, 0xEA, 0xB0, 0x201E, 0x20, 0xEB, 0xA7, 0xEC, 0xB6, 0xB0], 5), ([0xEC, 0x2022, 0xBD, 0xEC, 0x2020, 0x20, 0xEC, 0x2039, 0x153, 0xEA, 0xB0, 0x201E], 5),
     ([0xEC, 0xA0, 0x2022, 0xEC, 0x2039, 0x153], 4), ([0xEC, 0xB2, 0xB4, 0xED, 0xAC, 0xEB, 0xA6, 0xAC, 0xEC, 0x160, 0xA4, 0xED, 0x160, 0xB8], 5),
     ([0xED, 0x2C6, 0xAC, 0xEB, 0x2018], 5), ([0xED, 0x2022, 0xA0, 0x20, 0xEC, 0xBC], 4),
     ([0xEC, 0x2122, 0x201E, 0xEB, 0xA3, 0x152], 3), ([0xEB, 0xA7, 0x2C6, 0xEB, 0xAC, 0xB4, 0xEB, 0xA6, 0xAC], 4),
     ([0xEB, 0xEB, 0x201A, 0xB4], 3), ([0xEA, 0xB9, 0x201D, 0xEB, 0x201D], 4),
     ([0xEC, 0xA0, 0x2022, 0xED, 0x2122, 0x2022, 0xED, 0x2C6], 4), ([0xED, 0x2039, 0x20AC, 0xEB, 0xA6, 0xBC, 0xEC, 0x2014, 0x2020, 0xEC, 0xB4], 4)
    ]"

definition DICTIONARY_JP_P :: "keyword list" where
  "DICTIONARY_JP_P =
    [
     ([0xEC, 0xA6, 0x2030, 0xED, 0xA5], 5), ([0xEA, 0xB7, 0xB8, 0xEB, 0x2022, 0x152], 4),
     ([0xEC, 0x153, 0xA0, 0xEC, 0x2014, 0xB0], 4), ([0xEB, 0x152, 0x20AC, 0xEC, 0xB6, 0xA9], 4),
     ([0xEC, 0xBC, 0xEB, 0x2039, 0xA8], 5), ([0xEC, 0x192, 0xED, 0x2122, 0xA9, 0x20, 0xEB, 0xB4, 0xEC, 0x201E, 0x153], 4),
     ([0xEB, 0x201A, 0x2DC, 0xEC, 0xA4, 0x2018, 0xEC, 0x2014], 4), ([0xEC, 0xB2, 0x153, 0xEC, 0xB2, 0x153, 0xED, 0x2C6], 3),
     ([0xEC, 0x2014, 0xAC, 0xEC, 0x153, 0xA0], 4), ([0xEC, 0xEC, 0x153, 0xA0], 4),
     ([0xED, 0xB8, 0xED, 0x2022, 0x153], 3), ([0xEB, 0x160, 0xEA, 0xB8, 0x2039], 4),
     ([0xEB, 0xA7, 0x2030], 4), ([0xEC, 0x2022, 0x201E, 0xEB, 0xAC, 0xB4], 3),
     ([0xEB, 0xAD, 0xEB, 0x201C, 0xA0], 4), ([0xEA, 0xB7, 0xB8, 0xEB, 0x192, 0xA5], 3),
     ([0xEA, 0xB7, 0xB8, 0xEB, 0xA0, 0x2021, 0xEA, 0xB2, 0x152], 2), ([0xEC, 0x2022, 0x152, 0xEC, 0x2022, 0x201E, 0xEC, 0x201E, 0x153], 4),
     ([0xED, 0xEB, 0xA6, 0x201E], 4), ([0xED, 0x192, 0x20AC, 0xEC, 0xB4, 0xEB, 0xB0], 4),
     ([0xEC, 0x2C6, 0x153, 0xEA, 0xB0, 0x201E], 3), ([0xEC, 0x153, 0xB5, 0xED, 0x2020, 0xB5], 5),
     ([0xEC, 0x201E, 0xEA, 0xB8, 0xB0, 0xEC, 0x2018, 0xEB, 0xB3, 0x20AC], 5), ([0xEC, 0x2022, 0xA0, 0xEB, 0x201C, 0x153, 0xEB, 0xA6, 0xBD], 5),
     ([0xEB, 0xB3, 0x20AC, 0xED, 0x2122, 0x201D], 3), ([0xEC, 0xA0, 0xEC, 0x2018], 4),
     ([0xEC, 0xA1, 0xB0, 0xEC, 0xA0, 0x2C6], 3), ([0xEB, 0xB0, 0x201D, 0xEA, 0xBF, 0x201D], 3),
     ([0xEB, 0x2039, 0xA4, 0xEC, 0x2039, 0x153], 2), ([0xEB, 0x2DC], 2),
     ([0xEB, 0x201A, 0x2DC, 0xEC, 0xA4, 0x2018], 4), ([0xEB, 0xAF, 0xB8, 0xEB, 0xA3, 0xA8], 5),
     ([0xEC, 0xBC, 0xEB, 0x2039, 0xA8, 0xEC, 0x20AC], 5), ([0xEA, 0xB0, 0x20AC, 0xEB, 0x2039, 0xA4, 0xEA, 0xB0, 0x20AC], 4),
     ([0xEB, 0xB3, 0xB4, 0xEB, 0xA9, 0xB4, 0xEC, 0x201E, 0x153], 4), ([0xEC, 0xA7, 0x20AC, 0xEA, 0xB8, 0x2C6, 0xEC, 0x20AC], 3),
     ([0xEB, 0x2039, 0xB9, 0xEC, 0xA5], 3), ([0xEA, 0xB8, 0x2030, 0xED, 0x2022, 0x2DC, 0xEA, 0xB2, 0x152], 3),
     ([0xEC, 0x2014, 0xAC, 0xEC, 0x153, 0xA0, 0xEB, 0xA1, 0xAD, 0xEA, 0xB2, 0x152], 4), ([0xEB, 0xA7, 0x2030, 0xEC, 0x192], 4),
     ([0xEC, 0x192, 0xEA, 0xB0, 0xEB, 0x201A, 0x2DC, 0xEB, 0xA9, 0xB4], 4), ([0xEB, 0x152, 0xEB, 0xA6, 0xAC, 0xEB, 0xA9, 0xB4], 4),
     ([0xED, 0x2022, 0x2DC, 0xEA, 0xB3, 0xA0, 0x20, 0xEC, 0x2039, 0xB6, 0xEC, 0x201E, 0x20, 0xEB, 0x2022, 0x152], 5), ([0xEA, 0xB8, 0xB0, 0xEB, 0xB6, 0x201E, 0x20, 0xEB, 0x201A, 0xB4, 0xED, 0x201A, 0xAC, 0x20, 0xEB, 0x2022, 0x152], 5)
    ]"

definition DICTIONARY :: "(string \<times> (char \<times> keyword list) list) list" where
  "DICTIONARY =
    [
     (''EI'', [(CHR ''E'', DICTIONARY_EI_E), (CHR ''I'', DICTIONARY_EI_I)]),
     (''SN'', [(CHR ''S'', DICTIONARY_SN_S), (CHR ''N'', DICTIONARY_SN_N)]),
     (''TF'', [(CHR ''T'', DICTIONARY_TF_T), (CHR ''F'', DICTIONARY_TF_F)]),
     (''JP'', [(CHR ''J'', DICTIONARY_JP_J), (CHR ''P'', DICTIONARY_JP_P)])
    ]"

definition pattern_SN_N :: "pystr list" where
  "pattern_SN_N =
    [
     [0xEB, 0xA7, 0x152, 0xEC, 0x2022, 0xBD, 0xEC, 0x2014],
     [0x7E, 0xEB, 0xBC, 0xEB, 0xA9, 0xB4],
     [0xEC, 0x2013, 0xB4, 0xEC, 0xA9, 0x152, 0xEB, 0xA9, 0xB4],
     [0xEC, 0x2013, 0xB8, 0xEC, 0xA0, 0xA0, 0xEA, 0xB0, 0x20AC],
     [0xEB, 0xAF, 0xB8, 0xEB, 0x2DC, 0xEC, 0x2014],
     [0xEA, 0xB0, 0x20AC, 0xEB, 0x160, 0xA5, 0xEC, 0x201E, 0xB1],
     [0xEC, 0x192, 0xEC, 0x192]
    ]"

definition pattern_SN_S :: "pystr list" where
  "pattern_SN_S =
    [
     [0xEC, 0x2039, 0xA4, 0xEC, 0xA0, 0x153, 0xEB, 0xA1, 0x153],
     [0xEA, 0xB2, 0xBD, 0xED, 0x2014, 0x2DC, 0xEC, 0x192],
     [0xEC, 0xA7, 0xEC, 0xA0, 0x2018],
     [0xED, 0x2022, 0xB4, 0xEB, 0xB4, 0xA4],
     [0xEB, 0xB3, 0xB8, 0x20, 0xEC, 0xA0],
     [0xED, 0x2DC, 0x201E, 0xEC, 0x2039, 0xA4, 0xEC, 0xA0, 0xEC, 0x153, 0xBC, 0xEB, 0xA1, 0x153]
    ]"

definition pattern_TF_T :: "pystr list" where
  "pattern_TF_T =
    [
     [0xEC, 0x2122, 0x153, 0x20, 0xEA, 0xB7, 0xB8, 0xEB, 0x178, 0xB0, 0xEC, 0xA7, 0x20AC],
     [0xEC, 0xB4, 0xEC, 0x153, 0xA0, 0xEA, 0xB0, 0x20AC, 0x20, 0xEB, 0xAD, 0xEC, 0x2022, 0xBC],
     [0xEB, 0x2026, 0xBC, 0xEB, 0xA6, 0xAC, 0xEC, 0xA0],
     [0xED, 0x2022, 0xA9, 0xEB, 0xA6, 0xAC, 0xEC, 0xA0],
     [0xEB, 0x201D, 0xB0, 0xEC, 0xA0, 0xB8, 0xEB, 0xB3, 0xB4, 0xEB, 0xA9, 0xB4]
    ]"

definition pattern_TF_F :: "pystr list" where
  "pattern_TF_F =
    [
     [0xEA, 0xB8, 0xB0, 0xEB, 0xB6, 0x201E, 0xEC, 0xB4],
     [0xEB, 0xA7, 0x2C6, 0xEC, 0x152, 0xEC, 0xB4],
     [0xEA, 0xB0, 0xEC, 0xA0, 0x2022, 0xEC, 0xA0],
     [0xEA, 0xB3, 0xB5, 0xEA, 0xB0],
     [0xEC, 0x153, 0x201E, 0xEB, 0xA1, 0x153],
     [0xEC, 0x2020, 0xEC, 0x192],
     [0xEC, 0x201E, 0x153, 0xEC, 0x161, 0xB4]
    ]"

definition pattern_JP_J :: "pystr list" where
  "pattern_JP_J =
    [
     [0xEA, 0xB3, 0x201E, 0xED, 0x161],
     [0xEB, 0xAF, 0xB8, 0xEB, 0xA6, 0xAC],
     [0xEC, 0x160, 0xA4, 0xEC, 0xBC, 0x20AC, 0xEC, 0xA4, 0x201E],
     [0xEC, 0x2DC, 0x2C6, 0xEC, 0x2022, 0xBD],
     [0xEC, 0xA0, 0x2022, 0xED, 0x2022, 0xB4],
     [0xEC, 0xB2, 0xB4, 0xED, 0xAC, 0xEB, 0xA6, 0xAC, 0xEC, 0x160, 0xA4, 0xED, 0x160, 0xB8]
    ]"

definition pattern_JP_P :: "pystr list" where
  "pattern_JP_P =
    [
     [0xEC, 0xA6, 0x2030, 0xED, 0xA5],
     [0xEC, 0xBC, 0xEB, 0x2039, 0xA8],
     [0xEC, 0x192, 0xED, 0x2122, 0xA9, 0x20, 0xEB, 0xB4, 0xEC, 0x201E, 0x153],
     [0xEA, 0xB7, 0xB8, 0xEB, 0x2022, 0x152, 0x20, 0xEA, 0xB0, 0x20AC, 0xEC, 0x201E, 0x153],
     [0xEB, 0x201A, 0x2DC, 0xEC, 0xA4, 0x2018, 0xEC, 0x2014],
     [0xEB, 0x152, 0x20AC, 0xEC, 0xB6, 0xA9]
    ]"

definition abstract_words :: "pystr list" where
  "abstract_words =
    [
     [0xEA, 0xB2, 0x192],
     [0xEA, 0xB1, 0xB0],
     [0xEB, 0xAD, 0x201D, 0xEA, 0xB0, 0x20AC],
     [0xEB, 0x160, 0xEB, 0x201A, 0x152],
     [0xEA, 0xB0, 0x2122, 0xEC, 0x20AC],
     [0xEB, 0x201C, 0xAF]
    ]"

definition concrete_words :: "pystr list" where
  "concrete_words =
    [
     [0xEB, 0xB2, 0x2C6],
     [0xEA, 0xB0, 0x153],
     [0xEB, 0xAA, 0x2026],
     [0xEC, 0x2039, 0x153],
     [0xEB, 0xB6, 0x201E],
     [0xED, 0x161, 0x152]
    ]"

definition exclamations :: "pystr list" where
  "exclamations =
    [
     [0x21],
     [0xE3, 0x2026, 0xA0],
     [0xE3, 0x2026, 0x153],
     [0xE3, 0x2026],
     [0xE3, 0x2026, 0x2039],
     [0xE2, 0x2122, 0xA5],
     [0xE2, 0xA4],
     [0x11F, 0x178, 0x2DC, 0xA2],
     [0x11F, 0x178, 0x2DC, 0xAD],
     [0x11F, 0x178, 0x2019, 0x2022]
    ]"

definition decisive_words :: "pystr list" where
  "decisive_words =
    [
     [0xED, 0x2022, 0xB4, 0xEC, 0x2022, 0xBC],
     [0xED, 0x2022, 0xA0, 0x20, 0xEA, 0xB1, 0xB0, 0xEC, 0x2022, 0xBC],
     [0xED, 0x2022, 0xA0, 0xEA, 0xB2, 0x152],
     [0xEC, 0x2DC, 0x2C6, 0xEC, 0xA0, 0x2022],
     [0xEB, 0xB0, 0x2DC, 0xEB, 0x201C, 0x153, 0xEC, 0x2039, 0x153],
     [0xEA, 0xBC, 0xAD]
    ]"

definition uncertain_words :: "pystr list" where
  "uncertain_words =
    [
     [0xEC, 0x2022, 0x201E, 0xEB, 0xA7, 0x2C6],
     [0xEA, 0xB8, 0x20AC, 0xEC, 0x201E],
     [0xEB, 0xAA, 0xA8, 0xEB, 0xA5, 0xB4, 0xEA, 0xB2, 0xA0],
     [0xEB, 0xA0, 0x20, 0xEB, 0x201C, 0xAF],
     [0xEC, 0xBC, 0xEB, 0x2039, 0xA8],
     [0xEC, 0x2013, 0xB4, 0xEC, 0xA9, 0x152, 0xEB, 0xA9, 0xB4]
    ]"

text \<open>The two literals counted in the TF branch of the style correction (line 219).\<close>

definition how_word :: pystr where
  "how_word = [0xEC, 0x2013, 0xB4, 0xEB, 0x2013, 0xBB, 0xEA, 0xB2, 0x152]"

definition why_word :: pystr where
  "why_word = [0xEC, 0x2122, 0x153]"

section \<open>Score accumulator\<close>

text \<open>
  The accumulator is a \<^verbatim>\<open>dict\<close> from trait letters to integers whose keys are fixed when
  it is created, every value 0: the eight letters of \<^verbatim>\<open>"EISNTFJP"\<close>, or, in the second
  \<^verbatim>\<open>analyze_single_answer\<close>, the letters of the dimension name. Every subscript the
  source writes names a trait of the dimension at hand, which is one of those keys, so
  no \<^verbatim>\<open>KeyError\<close> branch exists; the dictionary is modelled by its value function.
\<close>

type_synonym scores = "char \<Rightarrow> int"

definition init_scores :: scores where
  "init_scores = (\<lambda>k. 0)"

text \<open>\<^verbatim>\<open>scores[trait] += w\<close>.\<close>

definition add_score :: "scores \<Rightarrow> char \<Rightarrow> int \<Rightarrow> scores" where
  "add_score sc trait w = sc(trait := sc trait + w)"

section \<open>Dimension resolver\<close>

text \<open>
  The module defines \<^verbatim>\<open>get_dimension_for_question\<close> twice. The second definition
  (lines 382-392) rebinds the name, so it is the one callers get; the first (lines
  151-160) is kept under the suffix \<open>_v1\<close>.
\<close>

definition get_dimension_for_question_v1 :: "int \<Rightarrow> string" where
  "get_dimension_for_question_v1 question_index =
     (if question_index < 3 then ''EI''
      else if question_index < 6 then ''SN''
      else if question_index < 9 then ''TF''
      else ''JP'')"

definition get_dimension_for_question :: "int \<Rightarrow> string" where
  "get_dimension_for_question question_index =
     (if question_index < 3 then ''EI''
      else if question_index < 6 then ''SN''
      else if question_index < 9 then ''TF''
      else if question_index < 12 then ''JP''
      else '''')"

section \<open>Lexicon matcher and regular-expression rules\<close>

text \<open>
  The keyword loop, written out three times in the source (lines 259-263, 329-333,
  400-404): for each trait and each of its keywords that occurs in the answer, add the
  weight to the trait and set \<^verbatim>\<open>keyword_matched\<close>. The state is the accumulator and the
  flag.
\<close>

fun match_keywords :: "keyword list \<Rightarrow> pystr \<Rightarrow> char \<Rightarrow> scores \<times> bool \<Rightarrow> scores \<times> bool" where
  "match_keywords [] ans trait st = st"
| "match_keywords ((word, w) # ks) ans trait (sc, matched) =
     match_keywords ks ans trait
       (if py_in word ans then (add_score sc trait w, True) else (sc, matched))"

fun match_traits :: "(char \<times> keyword list) list \<Rightarrow> pystr \<Rightarrow> scores \<times> bool \<Rightarrow> scores \<times> bool" where
  "match_traits [] ans st = st"
| "match_traits ((trait, keywords) # rest) ans st =
     match_traits rest ans (match_keywords keywords ans trait st)"

text \<open>
  \<^verbatim>\<open>if dimension in DICTIONARY: for trait, keywords in DICTIONARY[dimension].items()\<close>.
  In \<^verbatim>\<open>calculate_partial_mbti\<close> and \<^verbatim>\<open>run_analysis\<close> the dimension is always one of the
  four keys, so the lookup \<^verbatim>\<open>DICTIONARY[dim]\<close> there never fails.
\<close>

definition match_lexicon :: "string \<Rightarrow> pystr \<Rightarrow> scores \<times> bool \<Rightarrow> scores \<times> bool" where
  "match_lexicon dimension ans st =
     (case map_of DICTIONARY dimension of
        Some traits \<Rightarrow> match_traits traits ans st
      | None \<Rightarrow> st)"

text \<open>\<^verbatim>\<open>if re.search(...): scores[trait] += w; keyword_matched = True\<close>.\<close>

definition bonus :: "bool \<Rightarrow> char \<Rightarrow> int \<Rightarrow> scores \<times> bool \<Rightarrow> scores \<times> bool" where
  "bonus hit trait w st = (if hit then (add_score (fst st) trait w, True) else st)"

definition regex_rules :: "string \<Rightarrow> pystr \<Rightarrow> scores \<times> bool \<Rightarrow> scores \<times> bool" where
  "regex_rules dimension ans st =
     (let st = (if dimension = ''SN''
                then bonus (re_search pattern_SN_S ans) (CHR ''S'') 3
                       (bonus (re_search pattern_SN_N ans) (CHR ''N'') 3 st)
                else st);
          st = (if dimension = ''TF''
                then bonus (re_search pattern_TF_F ans) (CHR ''F'') 4
                       (bonus (re_search pattern_TF_T ans) (CHR ''T'') 4 st)
                else st);
          st = (if dimension = ''JP''
                then bonus (re_search pattern_JP_P ans) (CHR ''P'') 3
                       (bonus (re_search pattern_JP_J ans) (CHR ''J'') 3 st)
                else st)
      in st)"

section \<open>Style correction\<close>

definition style_EI :: "pystr \<Rightarrow> scores \<Rightarrow> scores" where
  "style_EI ans sc =
     (let ans_len = int (length ans)
      in if ans_len > 50 then add_score sc (CHR ''E'') 1
         else if ans_len < 20 then add_score sc (CHR ''I'') 1
         else sc)"

definition style_SN :: "pystr \<Rightarrow> scores \<Rightarrow> scores" where
  "style_SN ans sc =
     (let abstract_count = sum_in abstract_words ans;
          sc = (if abstract_count \<ge> 2 then add_score sc (CHR ''N'') 1 else sc);
          concrete_count = sum_in concrete_words ans
      in if concrete_count \<ge> 2 then add_score sc (CHR ''S'') 1 else sc)"

definition style_TF :: "pystr \<Rightarrow> scores \<Rightarrow> scores" where
  "style_TF ans sc =
     (let question_indicators =
            int (py_count [0x3F] ans) + int (py_count how_word ans) + int (py_count why_word ans);
          sc = (if question_indicators \<ge> 2 then add_score sc (CHR ''T'') 1 else sc);
          exclamation_count = sum_count exclamations ans
      in if exclamation_count \<ge> 3 then add_score sc (CHR ''F'') 2
         else if exclamation_count \<ge> 1 then add_score sc (CHR ''F'') 1
         else sc)"

definition style_JP :: "pystr \<Rightarrow> scores \<Rightarrow> scores" where
  "style_JP ans sc =
     (let sc = (if any_in decisive_words ans then add_score sc (CHR ''J'') 1 else sc)
      in if sum_in uncertain_words ans \<ge> 1 then add_score sc (CHR ''P'') 1 else sc)"

text \<open>\<^verbatim>\<open>apply_style_correction(ans, dim, scores)\<close>, lines 198-237: four independent
  \<^verbatim>\<open>if dim == ...\<close> blocks, one per dimension.\<close>

definition apply_style_correction :: "pystr \<Rightarrow> string \<Rightarrow> scores \<Rightarrow> scores" where
  "apply_style_correction ans dimension sc =
     (let sc = (if dimension = ''EI'' then style_EI ans sc else sc);
          sc = (if dimension = ''SN'' then style_SN ans sc else sc);
          sc = (if dimension = ''TF'' then style_TF ans sc else sc);
          sc = (if dimension = ''JP'' then style_JP ans sc else sc)
      in sc)"

section \<open>Scoring one answer\<close>

text \<open>
  The body shared by the second \<^verbatim>\<open>analyze_single_answer\<close> (lines 399-432), the loop of
  \<^verbatim>\<open>calculate_partial_mbti\<close> (lines 257-291) and the loop of \<^verbatim>\<open>run_analysis\<close> (lines
  327-360) for an answer that is a string: keyword loop, regular-expression rules, then
  \<^verbatim>\<open>if not keyword_matched: apply_style_correction(ans, dim, scores)\<close>.
\<close>

definition match_all :: "string \<Rightarrow> pystr \<Rightarrow> scores \<Rightarrow> scores \<times> bool" where
  "match_all dimension ans sc = regex_rules dimension ans (match_lexicon dimension ans (sc, False))"

definition score_answer :: "string \<Rightarrow> pystr \<Rightarrow> scores \<Rightarrow> scores" where
  "score_answer dimension ans sc =
     (let st = match_all dimension ans sc
      in if \<not> snd st then apply_style_correction ans dimension (fst st) else fst st)"

text \<open>
  The first definition of \<^verbatim>\<open>analyze_single_answer\<close> (lines 163-195); the second
  definition rebinds the name. It has no regular-expression rules and applies the style
  correction whether or not a keyword matched. The result dictionary
  \<^verbatim>\<open>{"scores", "side", "score"}\<close> is the triple of its values.
\<close>

definition analyze_single_answer_v1 :: "pystr \<Rightarrow> string \<Rightarrow> scores \<times> char \<times> int" where
  "analyze_single_answer_v1 answer dimension =
     (let sc = fst (match_lexicon dimension answer (init_scores, False));
          sc = apply_style_correction answer dimension sc;
          (side, score) =
            (if dimension = ''EI'' then
               (if sc (CHR ''E'') \<ge> sc (CHR ''I'') then CHR ''E'' else CHR ''I'',
                max (sc (CHR ''E'')) (sc (CHR ''I'')))
             else if dimension = ''SN'' then
               (if sc (CHR ''S'') \<ge> sc (CHR ''N'') then CHR ''S'' else CHR ''N'',
                max (sc (CHR ''S'')) (sc (CHR ''N'')))
             else if dimension = ''TF'' then
               (if sc (CHR ''T'') \<ge> sc (CHR ''F'') then CHR ''T'' else CHR ''F'',
                max (sc (CHR ''T'')) (sc (CHR ''F'')))
             else
               (if sc (CHR ''J'') \<ge> sc (CHR ''P'') then CHR ''J'' else CHR ''P'',
                max (sc (CHR ''J'')) (sc (CHR ''P''))))
      in (sc, side, score))"

text \<open>
  The second definition (lines 394-439), the one bound to the name.
  \<^verbatim>\<open>trait1, trait2 = tuple(dimension)\<close> raises \<^verbatim>\<open>ValueError\<close> unless the dimension name
  has exactly two characters; \<^verbatim>\<open>scores.get(t, 0)\<close> reads the accumulator.
\<close>

definition analyze_single_answer :: "pystr \<Rightarrow> string \<Rightarrow> py_error + scores \<times> char \<times> int" where
  "analyze_single_answer answer dimension =
     (let sc = score_answer dimension answer init_scores
      in case dimension of
           [trait1, trait2] \<Rightarrow>
             (let side = (if sc trait1 \<ge> sc trait2 then trait1 else trait2)
              in Inr (sc, side, sc side))
         | _ \<Rightarrow> Inl ValueError)"

section \<open>Scoring a session\<close>

text \<open>
  \<^verbatim>\<open>calculate_partial_mbti\<close> (lines 240-318). An index from 12 on has no dimension and
  is skipped; an entry that is not a string fails every \<^verbatim>\<open>isinstance(ans, str)\<close> guard
  and leaves the accumulator as it is. The function has no raising path.
\<close>

definition partial_step :: "nat \<Rightarrow> pyval \<Rightarrow> scores \<Rightarrow> scores" where
  "partial_step i ans sc =
     (let dimension = (if i < 3 then ''EI'' else if i < 6 then ''SN'' else if i < 9 then ''TF''
                 else if i < 12 then ''JP'' else '''')
      in if dimension = '''' then sc
         else (case ans of PyStr s \<Rightarrow> score_answer dimension s sc | _ \<Rightarrow> sc))"

fun partial_loop :: "nat \<Rightarrow> pyval list \<Rightarrow> scores \<Rightarrow> scores" where
  "partial_loop i [] sc = sc"
| "partial_loop i (ans # rest) sc = partial_loop (Suc i) rest (partial_step i ans sc)"

definition calculate_partial_mbti :: "pyval list \<Rightarrow> string \<times> scores" where
  "calculate_partial_mbti answers =
     (let sc = partial_loop 0 answers init_scores;
          partial_mbti =
            (if answers \<noteq> [] \<and> length answers > 0 then
               [if length answers \<ge> 3
                then (if sc (CHR ''E'') \<ge> sc (CHR ''I'') then CHR ''E'' else CHR ''I'')
                else CHR ''X'',
                if length answers \<ge> 6
                then (if sc (CHR ''S'') \<ge> sc (CHR ''N'') then CHR ''S'' else CHR ''N'')
                else CHR ''X'',
                if length answers \<ge> 9
                then (if sc (CHR ''T'') \<ge> sc (CHR ''F'') then CHR ''T'' else CHR ''F'')
                else CHR ''X'',
                if length answers \<ge> 12
                then (if sc (CHR ''J'') \<ge> sc (CHR ''P'') then CHR ''J'' else CHR ''P'')
                else CHR ''X'']
             else ''XXXX'')
      in (partial_mbti, sc))"

text \<open>
  \<^verbatim>\<open>run_analysis\<close> (lines 321-379). Every index from 9 on is scored as JP. There is no
  \<^verbatim>\<open>isinstance\<close> guard: each \<^verbatim>\<open>DICTIONARY[dim]\<close> starts with a non-empty keyword list, so
  the first thing done with an entry is \<^verbatim>\<open>k["word"] in ans\<close>, which raises
  \<^verbatim>\<open>TypeError\<close> when the entry is not a string.
\<close>

definition run_step :: "nat \<Rightarrow> pyval \<Rightarrow> scores \<Rightarrow> py_error + scores" where
  "run_step i ans sc =
     (let dimension = (if i < 3 then ''EI'' else if i < 6 then ''SN'' else if i < 9 then ''TF''
                 else ''JP'')
      in case ans of PyStr s \<Rightarrow> Inr (score_answer dimension s sc) | _ \<Rightarrow> Inl TypeError)"

fun run_loop :: "nat \<Rightarrow> pyval list \<Rightarrow> scores \<Rightarrow> py_error + scores" where
  "run_loop i [] sc = Inr sc"
| "run_loop i (ans # rest) sc =
     (case run_step i ans sc of Inl e \<Rightarrow> Inl e | Inr sc' \<Rightarrow> run_loop (Suc i) rest sc')"

text \<open>
  \<^verbatim>\<open>round(x, 1)\<close>: to one decimal place, a tie going to the even digit.
  \<^verbatim>\<open>get_conf\<close> is computed here in exact rational arithmetic; Python evaluates the same
  expression in binary floating point.
\<close>

definition py_round1 :: "rat \<Rightarrow> rat" where
  "py_round1 x =
     (let y = x * 10; f = \<lfloor>y\<rfloor>; r = y - of_int f
      in of_int (if r < 1 / 2 then f
                 else if r > 1 / 2 then f + 1
                 else if even f then f else f + 1) / 10)"

definition get_conf :: "int \<Rightarrow> int \<Rightarrow> rat" where
  "get_conf a b = py_round1 ((of_int \<bar>a - b\<bar> / (of_int (a + b) + 1 / 10)) * 100)"

definition run_analysis :: "pyval list \<Rightarrow> py_error + string \<times> scores \<times> (string \<times> rat) list" where
  "run_analysis answers =
     (case run_loop 0 answers init_scores of
        Inl e \<Rightarrow> Inl e
      | Inr sc \<Rightarrow>
          (let res_mbti =
                 [if sc (CHR ''E'') \<ge> sc (CHR ''I'') then CHR ''E'' else CHR ''I'',
                  if sc (CHR ''S'') \<ge> sc (CHR ''N'') then CHR ''S'' else CHR ''N'',
                  if sc (CHR ''T'') \<ge> sc (CHR ''F'') then CHR ''T'' else CHR ''F'',
                  if sc (CHR ''J'') \<ge> sc (CHR ''P'') then CHR ''J'' else CHR ''P''];
               confidence =
                 [(''EI'', get_conf (sc (CHR ''E'')) (sc (CHR ''I''))),
                  (''SN'', get_conf (sc (CHR ''S'')) (sc (CHR ''N''))),
                  (''TF'', get_conf (sc (CHR ''T'')) (sc (CHR ''F''))),
                  (''JP'', get_conf (sc (CHR ''J'')) (sc (CHR ''P'')))]
           in Inr (res_mbti, sc, confidence)))"

section \<open>Notions used in the statements and proofs\<close>

subsection \<open>Closed forms of the matching loops\<close>

text \<open>
  The keyword loop adds, to each trait, the weights of the keywords that occur in the
  answer, and raises the flag when one occurs.
\<close>

definition kw_total :: "keyword list \<Rightarrow> pystr \<Rightarrow> int" where
  "kw_total ks ans = sum_list (map (\<lambda>(word, w). if py_in word ans then w else 0) ks)"

definition kw_hit :: "keyword list \<Rightarrow> pystr \<Rightarrow> bool" where
  "kw_hit ks ans = list_ex (\<lambda>(word, w). py_in word ans) ks"

definition lex_total :: "(char \<times> keyword list) list \<Rightarrow> pystr \<Rightarrow> char \<Rightarrow> int" where
  "lex_total trs ans x = sum_list (map (\<lambda>(t, ks). if t = x then kw_total ks ans else 0) trs)"

definition lex_hit :: "(char \<times> keyword list) list \<Rightarrow> pystr \<Rightarrow> bool" where
  "lex_hit trs ans = list_ex (\<lambda>(t, ks). kw_hit ks ans) trs"

definition lexicon_total :: "string \<Rightarrow> pystr \<Rightarrow> char \<Rightarrow> int" where
  "lexicon_total dimension ans x =
     (case map_of DICTIONARY dimension of Some trs \<Rightarrow> lex_total trs ans x | None \<Rightarrow> 0)"

definition lexicon_hit :: "string \<Rightarrow> pystr \<Rightarrow> bool" where
  "lexicon_hit dimension ans =
     (case map_of DICTIONARY dimension of Some trs \<Rightarrow> lex_hit trs ans | None \<Rightarrow> False)"

definition rule_total :: "string \<Rightarrow> pystr list \<Rightarrow> char \<Rightarrow> int \<Rightarrow> string \<Rightarrow> pystr \<Rightarrow> char \<Rightarrow> int" where
  "rule_total d0 pat t w dimension ans x =
     (if dimension = d0 \<and> x = t \<and> re_search pat ans then w else 0)"

definition regex_total :: "string \<Rightarrow> pystr \<Rightarrow> char \<Rightarrow> int" where
  "regex_total dimension ans x =
     rule_total ''SN'' pattern_SN_N (CHR ''N'') 3 dimension ans x +
     rule_total ''SN'' pattern_SN_S (CHR ''S'') 3 dimension ans x +
     rule_total ''TF'' pattern_TF_T (CHR ''T'') 4 dimension ans x +
     rule_total ''TF'' pattern_TF_F (CHR ''F'') 4 dimension ans x +
     rule_total ''JP'' pattern_JP_J (CHR ''J'') 3 dimension ans x +
     rule_total ''JP'' pattern_JP_P (CHR ''P'') 3 dimension ans x"

definition regex_hit :: "string \<Rightarrow> pystr \<Rightarrow> bool" where
  "regex_hit dimension ans =
     (dimension = ''SN'' \<and> (re_search pattern_SN_N ans \<or> re_search pattern_SN_S ans) \<or>
      dimension = ''TF'' \<and> (re_search pattern_TF_T ans \<or> re_search pattern_TF_F ans) \<or>
      dimension = ''JP'' \<and> (re_search pattern_JP_J ans \<or> re_search pattern_JP_P ans))"

text \<open>All weights of a dimension's tables are non-negative.\<close>

definition weights_nonneg :: "(char \<times> keyword list) list \<Rightarrow> bool" where
  "weights_nonneg trs = list_all (\<lambda>(t, ks). list_all (\<lambda>(word, w). 0 \<le> w) ks) trs"

subsection \<open>Plain answers\<close>

text \<open>
  Every keyword, every alternative of a pattern and every marker of the style correction
  holds a code point outside ASCII, except the two punctuation marks \<^verbatim>\<open>?\<close> and
  \<^verbatim>\<open>!\<close>. A plain answer is ASCII text without these two marks.
\<close>

definition non_ascii :: "pystr \<Rightarrow> bool" where
  "non_ascii w = list_ex (\<lambda>c. 128 \<le> c) w"

definition plain :: "pystr \<Rightarrow> bool" where
  "plain ans = list_all (\<lambda>c. c < 128 \<and> c \<noteq> 0x3F \<and> c \<noteq> 0x21) ans"

subsection \<open>The confidence formula of the specification\<close>

text \<open>
  The confidence formula in the words of the specification: the totals of the winning
  and of the losing trait, their gap over their sum plus 0.1, as a percentage rounded to
  one decimal place.
\<close>

definition spec_confidence :: "int \<Rightarrow> int \<Rightarrow> rat" where
  "spec_confidence winner_total loser_total =
     py_round1 (of_int \<bar>winner_total - loser_total\<bar> /
                (of_int winner_total + of_int loser_total + 1 / 10) * 100)"

section \<open>Substring containment\<close>

lemma init_scores_apply: "init_scores k = 0"
  by (simp add: init_scores_def)

lemma py_in_sublist: "py_in sub s = sublist sub s"
  by (induction s) (simp_all add: sublist_Cons_right)

lemma py_in_mono: "py_in w a \<Longrightarrow> sublist a b \<Longrightarrow> py_in w b"
  unfolding py_in_sublist by (rule sublist_order.order.trans)

lemma py_in_self_append: "py_in k (a @ k)"
  by (simp add: py_in_sublist)

lemma py_in_self_prepend: "py_in k (k @ a)"
  by (simp add: py_in_sublist)

lemma py_in_set_mono: "py_in w s \<Longrightarrow> set w \<subseteq> set s"
  by (auto simp: py_in_sublist sublist_def)

section \<open>Closed forms of the matching loops: proofs\<close>

lemma match_keywords_eq:
  "match_keywords ks ans t (sc, m) = (sc(t := sc t + kw_total ks ans), m \<or> kw_hit ks ans)"
  by (induction ks arbitrary: sc m) (auto simp: kw_total_def kw_hit_def add_score_def add.assoc)

lemma match_traits_eq:
  "match_traits trs ans (sc, m) = (\<lambda>x. sc x + lex_total trs ans x, m \<or> lex_hit trs ans)"
  by (induction trs arbitrary: sc m) (auto simp: lex_total_def lex_hit_def match_keywords_eq fun_eq_iff)

lemma match_lexicon_eq:
  "match_lexicon d ans (sc, m) = (\<lambda>x. sc x + lexicon_total d ans x, m \<or> lexicon_hit d ans)"
  by (simp add: match_lexicon_def lexicon_total_def lexicon_hit_def match_traits_eq
      split: option.split)

lemma regex_rules_eq:
  "regex_rules d ans (sc, m) = (\<lambda>x. sc x + regex_total d ans x, m \<or> regex_hit d ans)"
  by (cases "d = ''SN''"; cases "d = ''TF''"; cases "d = ''JP''")
     (auto simp: regex_rules_def bonus_def regex_total_def rule_total_def regex_hit_def
        add_score_def fun_eq_iff Let_def)

lemma match_all_eq:
  "match_all d ans sc =
     (\<lambda>x. sc x + lexicon_total d ans x + regex_total d ans x, lexicon_hit d ans \<or> regex_hit d ans)"
  by (simp add: match_all_def match_lexicon_eq regex_rules_eq)

section \<open>Facts about the tables\<close>

lemma DICTIONARY_keys:
  "map_of DICTIONARY d = Some trs \<Longrightarrow> d \<in> {''EI'', ''SN'', ''TF'', ''JP''}"
  by (auto simp: DICTIONARY_def split: if_splits)

lemma weights_EI_E: "list_all (\<lambda>(word, w). 2 \<le> w) DICTIONARY_EI_E"
  by (simp add: DICTIONARY_EI_E_def)

lemma weights_EI_I: "list_all (\<lambda>(word, w). 2 \<le> w) DICTIONARY_EI_I"
  by (simp add: DICTIONARY_EI_I_def)

lemma weights_SN_S: "list_all (\<lambda>(word, w). 2 \<le> w) DICTIONARY_SN_S"
  by (simp add: DICTIONARY_SN_S_def)

lemma weights_SN_N: "list_all (\<lambda>(word, w). 2 \<le> w) DICTIONARY_SN_N"
  by (simp add: DICTIONARY_SN_N_def)

lemma weights_TF_T: "list_all (\<lambda>(word, w). 2 \<le> w) DICTIONARY_TF_T"
  by (simp add: DICTIONARY_TF_T_def)

lemma weights_TF_F: "list_all (\<lambda>(word, w). 2 \<le> w) DICTIONARY_TF_F"
  by (simp add: DICTIONARY_TF_F_def)

lemma weights_JP_J: "list_all (\<lambda>(word, w). 2 \<le> w) DICTIONARY_JP_J"
  by (simp add: DICTIONARY_JP_J_def)

lemma weights_JP_P: "list_all (\<lambda>(word, w). 2 \<le> w) DICTIONARY_JP_P"
  by (simp add: DICTIONARY_JP_P_def)

lemma DICTIONARY_weights:
  assumes "map_of DICTIONARY d = Some trs" "(t, ks) \<in> set trs" "(word, w) \<in> set ks"
  shows "2 \<le> w"
proof -
  from assms(1,2) have "ks \<in> {DICTIONARY_EI_E, DICTIONARY_EI_I, DICTIONARY_SN_S, DICTIONARY_SN_N,
      DICTIONARY_TF_T, DICTIONARY_TF_F, DICTIONARY_JP_J, DICTIONARY_JP_P}"
    by (auto simp: DICTIONARY_def split: if_splits)
  then have "list_all (\<lambda>(word, w). 2 \<le> w) ks"
    using weights_EI_E weights_EI_I weights_SN_S weights_SN_N weights_TF_T weights_TF_F
      weights_JP_J weights_JP_P by auto
  with assms(3) show ?thesis
    by (auto simp: list_all_iff)
qed

text \<open>
  The first keyword list of every dimension is non-empty, so the keyword loop of
  \<^verbatim>\<open>run_analysis\<close> evaluates \<^verbatim>\<open>k["word"] in ans\<close> before anything else is done with
  an entry.
\<close>

lemma DICTIONARY_first_nonempty:
  "map_of DICTIONARY d = Some trs \<Longrightarrow> trs \<noteq> [] \<and> snd (hd trs) \<noteq> []"
  by (auto simp: DICTIONARY_def DICTIONARY_EI_E_def DICTIONARY_SN_S_def DICTIONARY_TF_T_def
      DICTIONARY_JP_J_def split: if_splits)

section \<open>Dimension resolver: coverage\<close>

text \<open>
  C3. For a non-negative question index, \<^verbatim>\<open>get_dimension_for_question\<close> (the definition
  bound to the name) returns EI on [0,3), SN on [3,6), TF on [6,9), JP on [9,12), and from
  12 on the empty string, which is no key of \<^verbatim>\<open>DICTIONARY\<close>: a sentinel for "no
  dimension".
\<close>

theorem dimension_coverage:
  "0 \<le> i \<Longrightarrow>
     (i < 3 \<longrightarrow> get_dimension_for_question i = ''EI'') \<and>
     (3 \<le> i \<and> i < 6 \<longrightarrow> get_dimension_for_question i = ''SN'') \<and>
     (6 \<le> i \<and> i < 9 \<longrightarrow> get_dimension_for_question i = ''TF'') \<and>
     (9 \<le> i \<and> i < 12 \<longrightarrow> get_dimension_for_question i = ''JP'') \<and>
     (12 \<le> i \<longrightarrow> get_dimension_for_question i = '''' \<and>
        map_of DICTIONARY (get_dimension_for_question i) = None)"
  by (simp add: get_dimension_for_question_def DICTIONARY_def)

theorem dimension_coverage_witness:
  "get_dimension_for_question 0 = ''EI'' \<and> get_dimension_for_question 2 = ''EI'' \<and>
   get_dimension_for_question 3 = ''SN'' \<and> get_dimension_for_question 5 = ''SN'' \<and>
   get_dimension_for_question 6 = ''TF'' \<and> get_dimension_for_question 8 = ''TF'' \<and>
   get_dimension_for_question 9 = ''JP'' \<and> get_dimension_for_question 11 = ''JP'' \<and>
   get_dimension_for_question 12 = '''' \<and> get_dimension_for_question 40 = ''''"
  using dimension_coverage [of 0] dimension_coverage [of 2] dimension_coverage [of 3]
    dimension_coverage [of 5] dimension_coverage [of 6] dimension_coverage [of 8]
    dimension_coverage [of 9] dimension_coverage [of 11] dimension_coverage [of 12]
    dimension_coverage [of 40]
  by simp

section \<open>Answers that match nothing\<close>

lemma kw_no_hit: "\<not> kw_hit ks ans \<Longrightarrow> kw_total ks ans = 0"
  by (induction ks) (auto simp: kw_hit_def kw_total_def)

lemma lex_no_hit: "\<not> lex_hit trs ans \<Longrightarrow> lex_total trs ans x = 0"
  by (induction trs) (auto simp: lex_hit_def lex_total_def kw_no_hit)

lemma lexicon_no_hit: "\<not> lexicon_hit d ans \<Longrightarrow> lexicon_total d ans x = 0"
  by (auto simp: lexicon_hit_def lexicon_total_def lex_no_hit split: option.splits)

lemma regex_no_hit: "\<not> regex_hit d ans \<Longrightarrow> regex_total d ans x = 0"
  by (auto simp: regex_hit_def regex_total_def rule_total_def)

lemma match_all_no_hit: "\<not> snd (match_all d ans sc) \<Longrightarrow> fst (match_all d ans sc) = sc"
  by (simp add: match_all_eq lexicon_no_hit regex_no_hit)

lemma py_count_absent: "sub \<noteq> [] \<Longrightarrow> \<not> py_in sub s \<Longrightarrow> py_count sub s = 0"
proof (induction sub s rule: py_count.induct)
  case (1 sub s)
  show ?case
  proof (cases "length s < length sub")
    case True
    with "1.prems" show ?thesis by (simp add: py_count.simps)
  next
    case False
    have no_prefix: "take (length sub) s \<noteq> sub"
    proof
      assume "take (length sub) s = sub"
      then have "sublist sub s" by (metis sublist_take)
      with "1.prems" show False by (simp add: py_in_sublist)
    qed
    have "\<not> py_in sub (tl s)"
      using "1.prems"(2) py_in_mono [of sub "tl s" s] by auto
    with "1.IH"(2) "1.prems"(1) False no_prefix have "py_count sub (tl s) = 0" by simp
    with False no_prefix "1.prems"(1) show ?thesis
      by (subst py_count.simps) simp
  qed
qed

lemma plain_not_in:
  assumes "plain ans" "non_ascii w"
  shows "\<not> py_in w ans"
proof
  assume "py_in w ans"
  then have sub: "set w \<subseteq> set ans" by (rule py_in_set_mono)
  from assms(2) obtain c where c: "c \<in> set w" "128 \<le> c"
    by (auto simp: non_ascii_def list_ex_iff)
  with sub have "c \<in> set ans" by auto
  with assms(1) have "c < 128" by (simp add: plain_def list_all_iff)
  with c show False by simp
qed

lemma plain_no_mark: "plain ans \<Longrightarrow> \<not> py_in [0x3F] ans \<and> \<not> py_in [0x21] ans"
  by (auto simp: plain_def list_all_iff dest!: py_in_set_mono)

lemma non_ascii_EI_E: "list_all (\<lambda>(word, w). non_ascii word) DICTIONARY_EI_E"
  by (simp add: DICTIONARY_EI_E_def non_ascii_def)
lemma non_ascii_EI_I: "list_all (\<lambda>(word, w). non_ascii word) DICTIONARY_EI_I"
  by (simp add: DICTIONARY_EI_I_def non_ascii_def)
lemma non_ascii_SN_S: "list_all (\<lambda>(word, w). non_ascii word) DICTIONARY_SN_S"
  by (simp add: DICTIONARY_SN_S_def non_ascii_def)
lemma non_ascii_SN_N: "list_all (\<lambda>(word, w). non_ascii word) DICTIONARY_SN_N"
  by (simp add: DICTIONARY_SN_N_def non_ascii_def)
lemma non_ascii_TF_T: "list_all (\<lambda>(word, w). non_ascii word) DICTIONARY_TF_T"
  by (simp add: DICTIONARY_TF_T_def non_ascii_def)
lemma non_ascii_TF_F: "list_all (\<lambda>(word, w). non_ascii word) DICTIONARY_TF_F"
  by (simp add: DICTIONARY_TF_F_def non_ascii_def)
lemma non_ascii_JP_J: "list_all (\<lambda>(word, w). non_ascii word) DICTIONARY_JP_J"
  by (simp add: DICTIONARY_JP_J_def non_ascii_def)
lemma non_ascii_JP_P: "list_all (\<lambda>(word, w). non_ascii word) DICTIONARY_JP_P"
  by (simp add: DICTIONARY_JP_P_def non_ascii_def)

lemma non_ascii_patterns:
  "list_all non_ascii pattern_SN_N" "list_all non_ascii pattern_SN_S"
  "list_all non_ascii pattern_TF_T" "list_all non_ascii pattern_TF_F"
  "list_all non_ascii pattern_JP_J" "list_all non_ascii pattern_JP_P"
  by (simp_all add: pattern_SN_N_def pattern_SN_S_def pattern_TF_T_def pattern_TF_F_def
      pattern_JP_J_def pattern_JP_P_def non_ascii_def)

lemma non_ascii_markers:
  "list_all non_ascii abstract_words" "list_all non_ascii concrete_words"
  "list_all non_ascii decisive_words" "list_all non_ascii uncertain_words"
  "list_all non_ascii (tl exclamations)" "non_ascii how_word" "non_ascii why_word"
  by (simp_all add: abstract_words_def concrete_words_def decisive_words_def
      uncertain_words_def exclamations_def how_word_def why_word_def non_ascii_def)

lemma exclamations_split: "exclamations = [0x21] # tl exclamations"
  by (simp add: exclamations_def)

lemma plain_kw_hit:
  "plain ans \<Longrightarrow> list_all (\<lambda>(word, w). non_ascii word) ks \<Longrightarrow> \<not> kw_hit ks ans"
  by (auto simp: kw_hit_def list_all_iff list_ex_iff dest: plain_not_in)

lemma plain_lexicon_hit: "plain ans \<Longrightarrow> \<not> lexicon_hit d ans"
  by (auto simp: lexicon_hit_def lex_hit_def DICTIONARY_def plain_kw_hit
      non_ascii_EI_E non_ascii_EI_I non_ascii_SN_S non_ascii_SN_N non_ascii_TF_T
      non_ascii_TF_F non_ascii_JP_J non_ascii_JP_P split: option.splits if_splits)

lemma plain_re_search: "plain ans \<Longrightarrow> list_all non_ascii pat \<Longrightarrow> \<not> re_search pat ans"
  by (auto simp: re_search_def list_all_iff list_ex_iff dest: plain_not_in)

lemma plain_regex_hit: "plain ans \<Longrightarrow> \<not> regex_hit d ans"
  by (auto simp: regex_hit_def plain_re_search non_ascii_patterns)

lemma plain_sum_in: "plain ans \<Longrightarrow> list_all non_ascii ws \<Longrightarrow> sum_in ws ans = 0"
  by (induction ws) (auto simp: sum_in_def dest: plain_not_in)

lemma plain_any_in: "plain ans \<Longrightarrow> list_all non_ascii ws \<Longrightarrow> \<not> any_in ws ans"
  by (auto simp: any_in_def list_all_iff list_ex_iff dest: plain_not_in)

lemma plain_sum_count_tl: "plain ans \<Longrightarrow> list_all non_ascii ws \<Longrightarrow> sum_count ws ans = 0"
proof (induction ws)
  case Nil
  then show ?case by (simp add: sum_count_def)
next
  case (Cons w ws)
  then have "non_ascii w" by simp
  then have "w \<noteq> []" by (auto simp: non_ascii_def)
  with Cons \<open>non_ascii w\<close> show ?case
    by (simp add: sum_count_def py_count_absent plain_not_in)
qed

lemma plain_sum_count: "plain ans \<Longrightarrow> sum_count exclamations ans = 0"
proof -
  assume p: "plain ans"
  have "sum_count exclamations ans = int (py_count [0x21] ans) + sum_count (tl exclamations) ans"
    by (subst exclamations_split) (simp add: sum_count_def)
  with p show ?thesis
    by (simp add: plain_sum_count_tl non_ascii_markers py_count_absent plain_no_mark)
qed

lemma plain_style:
  assumes "plain ans" "20 \<le> length ans" "length ans \<le> 50"
  shows "apply_style_correction ans d sc = sc"
proof -
  have "non_ascii w \<Longrightarrow> py_count w ans = 0" for w
    using assms(1) by (intro py_count_absent plain_not_in) (auto simp: non_ascii_def)
  with assms show ?thesis
    by (simp add: apply_style_correction_def style_EI_def style_SN_def style_TF_def
        style_JP_def plain_sum_in plain_any_in plain_sum_count non_ascii_markers
        py_count_absent plain_no_mark Let_def)
qed

lemma score_answer_plain:
  assumes "plain ans" "20 \<le> length ans" "length ans \<le> 50"
  shows "score_answer d ans sc = sc"
  using assms
  by (simp add: score_answer_def match_all_eq plain_lexicon_hit plain_regex_hit plain_style
      lexicon_no_hit regex_no_hit Let_def)

section \<open>Sessions\<close>

lemma partial_loop_plain:
  "list_all (\<lambda>a. \<exists>s. a = PyStr s \<and> plain s \<and> 20 \<le> length s \<and> length s \<le> 50) answers
     \<Longrightarrow> partial_loop i answers sc = sc"
  by (induction answers arbitrary: i) (auto simp: partial_step_def score_answer_plain Let_def)

lemma run_loop_plain:
  "list_all (\<lambda>a. \<exists>s. a = PyStr s \<and> plain s \<and> 20 \<le> length s \<and> length s \<le> 50) answers
     \<Longrightarrow> run_loop i answers sc = Inr sc"
  by (induction answers arbitrary: i) (auto simp: run_step_def score_answer_plain Let_def)

lemma run_loop_text:
  "list_all (\<lambda>a. \<exists>s. a = PyStr s) answers \<Longrightarrow> \<exists>sc'. run_loop i answers sc = Inr sc'"
  by (induction answers arbitrary: i sc) (auto simp: run_step_def Let_def)

lemma run_loop_non_text:
  "\<not> list_all (\<lambda>a. \<exists>s. a = PyStr s) answers \<Longrightarrow> run_loop i answers sc = Inl TypeError"
proof (induction answers arbitrary: i sc)
  case Nil
  then show ?case by simp
next
  case (Cons a answers)
  show ?case
  proof (cases a)
    case (PyStr s)
    with Cons show ?thesis by (simp add: run_step_def Let_def)
  qed (simp_all add: run_step_def Let_def)
qed

lemma partial_step_non_text: "(\<forall>s. a \<noteq> PyStr s) \<Longrightarrow> partial_step i a sc = sc"
  by (cases a) (simp_all add: partial_step_def Let_def)

section \<open>Tie-break\<close>

lemma analyze_single_answer_tie:
  "analyze_single_answer ans [t1, t2] = Inr (sc, side, score) \<Longrightarrow> sc t1 = sc t2 \<Longrightarrow> side = t1"
  by (auto simp: analyze_single_answer_def Let_def)

lemma analyze_single_answer_v1_tie:
  "[t1, t2] \<in> {''EI'', ''SN'', ''TF'', ''JP''} \<Longrightarrow>
   analyze_single_answer_v1 ans [t1, t2] = (sc, side, score) \<Longrightarrow> sc t1 = sc t2 \<Longrightarrow> side = t1"
  by (auto simp: analyze_single_answer_v1_def Let_def)

lemma calculate_partial_mbti_label:
  "calculate_partial_mbti answers = (m, sc) \<Longrightarrow>
     m = [if 3 \<le> length answers
          then (if sc (CHR ''E'') \<ge> sc (CHR ''I'') then CHR ''E'' else CHR ''I'') else CHR ''X'',
          if 6 \<le> length answers
          then (if sc (CHR ''S'') \<ge> sc (CHR ''N'') then CHR ''S'' else CHR ''N'') else CHR ''X'',
          if 9 \<le> length answers
          then (if sc (CHR ''T'') \<ge> sc (CHR ''F'') then CHR ''T'' else CHR ''F'') else CHR ''X'',
          if 12 \<le> length answers
          then (if sc (CHR ''J'') \<ge> sc (CHR ''P'') then CHR ''J'' else CHR ''P'') else CHR ''X'']"
  by (cases answers) (auto simp: calculate_partial_mbti_def Let_def)

lemma run_analysis_label:
  "run_analysis answers = Inr (m, sc, conf) \<Longrightarrow>
     m = [if sc (CHR ''E'') \<ge> sc (CHR ''I'') then CHR ''E'' else CHR ''I'',
          if sc (CHR ''S'') \<ge> sc (CHR ''N'') then CHR ''S'' else CHR ''N'',
          if sc (CHR ''T'') \<ge> sc (CHR ''F'') then CHR ''T'' else CHR ''F'',
          if sc (CHR ''J'') \<ge> sc (CHR ''P'') then CHR ''J'' else CHR ''P''] \<and>
     conf = [(''EI'', get_conf (sc (CHR ''E'')) (sc (CHR ''I''))),
             (''SN'', get_conf (sc (CHR ''S'')) (sc (CHR ''N''))),
             (''TF'', get_conf (sc (CHR ''T'')) (sc (CHR ''F''))),
             (''JP'', get_conf (sc (CHR ''J'')) (sc (CHR ''P'')))]"
  by (auto simp: run_analysis_def Let_def split: sum.splits)

text \<open>
  C1 (as amended). On equal totals every scorer returns the first trait of the pair:
  E over I, S over N, T over F, J over P. This holds for both definitions of
  \<^verbatim>\<open>analyze_single_answer\<close>, for each unlocked position of the partial label and for
  each position of the final label.
\<close>

theorem tie_break_first_trait:
  "(\<forall>sc side score.
      analyze_single_answer ans [t1, t2] = Inr (sc, side, score) \<and> sc t1 = sc t2 \<longrightarrow> side = t1) \<and>
   (\<forall>sc side score.
      [t1, t2] \<in> {''EI'', ''SN'', ''TF'', ''JP''} \<and>
      analyze_single_answer_v1 ans [t1, t2] = (sc, side, score) \<and> sc t1 = sc t2 \<longrightarrow> side = t1) \<and>
   (\<forall>m sc. calculate_partial_mbti answers = (m, sc) \<longrightarrow>
      (3 \<le> length answers \<and> sc (CHR ''E'') = sc (CHR ''I'') \<longrightarrow> m ! 0 = CHR ''E'') \<and>
      (6 \<le> length answers \<and> sc (CHR ''S'') = sc (CHR ''N'') \<longrightarrow> m ! 1 = CHR ''S'') \<and>
      (9 \<le> length answers \<and> sc (CHR ''T'') = sc (CHR ''F'') \<longrightarrow> m ! 2 = CHR ''T'') \<and>
      (12 \<le> length answers \<and> sc (CHR ''J'') = sc (CHR ''P'') \<longrightarrow> m ! 3 = CHR ''J'')) \<and>
   (\<forall>m sc conf. run_analysis answers = Inr (m, sc, conf) \<longrightarrow>
      (sc (CHR ''E'') = sc (CHR ''I'') \<longrightarrow> m ! 0 = CHR ''E'') \<and>
      (sc (CHR ''S'') = sc (CHR ''N'') \<longrightarrow> m ! 1 = CHR ''S'') \<and>
      (sc (CHR ''T'') = sc (CHR ''F'') \<longrightarrow> m ! 2 = CHR ''T'') \<and>
      (sc (CHR ''J'') = sc (CHR ''P'') \<longrightarrow> m ! 3 = CHR ''J''))"
proof (intro conjI allI impI)
  fix sc side score
  assume "analyze_single_answer ans [t1, t2] = Inr (sc, side, score) \<and> sc t1 = sc t2"
  then show "side = t1" by (elim conjE) (rule analyze_single_answer_tie)
next
  fix sc side score
  assume "[t1, t2] \<in> {''EI'', ''SN'', ''TF'', ''JP''} \<and>
      analyze_single_answer_v1 ans [t1, t2] = (sc, side, score) \<and> sc t1 = sc t2"
  then show "side = t1" by (elim conjE) (rule analyze_single_answer_v1_tie)
next
  fix m sc
  assume r: "calculate_partial_mbti answers = (m, sc)"
  { assume "3 \<le> length answers \<and> sc (CHR ''E'') = sc (CHR ''I'')"
    with calculate_partial_mbti_label [OF r] show "m ! 0 = CHR ''E''" by simp }
  { assume "6 \<le> length answers \<and> sc (CHR ''S'') = sc (CHR ''N'')"
    with calculate_partial_mbti_label [OF r] show "m ! 1 = CHR ''S''" by simp }
  { assume "9 \<le> length answers \<and> sc (CHR ''T'') = sc (CHR ''F'')"
    with calculate_partial_mbti_label [OF r] show "m ! 2 = CHR ''T''" by simp }
  { assume "12 \<le> length answers \<and> sc (CHR ''J'') = sc (CHR ''P'')"
    with calculate_partial_mbti_label [OF r] show "m ! 3 = CHR ''J''" by simp }
next
  fix m sc conf
  assume r: "run_analysis answers = Inr (m, sc, conf)"
  { assume "sc (CHR ''E'') = sc (CHR ''I'')"
    with run_analysis_label [OF r] show "m ! 0 = CHR ''E''" by simp }
  { assume "sc (CHR ''S'') = sc (CHR ''N'')"
    with run_analysis_label [OF r] show "m ! 1 = CHR ''S''" by simp }
  { assume "sc (CHR ''T'') = sc (CHR ''F'')"
    with run_analysis_label [OF r] show "m ! 2 = CHR ''T''" by simp }
  { assume "sc (CHR ''J'') = sc (CHR ''P'')"
    with run_analysis_label [OF r] show "m ! 3 = CHR ''J''" by simp }
qed

lemma plain_example: "plain (replicate 20 0x61)"
  by (simp add: plain_def list_all_iff)

lemma plain_session:
  "list_all (\<lambda>a. \<exists>s. a = PyStr s \<and> plain s \<and> 20 \<le> length s \<and> length s \<le> 50)
     (replicate n (PyStr (replicate 20 0x61)))"
  by (simp add: list_all_iff plain_example)

theorem tie_break_first_trait_witness:
  "\<exists>sc side score m1 sc1 m2 sc2 conf.
     analyze_single_answer (replicate 20 0x61) ''EI'' = Inr (sc, side, score) \<and>
     sc (CHR ''E'') = sc (CHR ''I'') \<and> side = CHR ''E'' \<and>
     calculate_partial_mbti (replicate 12 (PyStr (replicate 20 0x61))) = (m1, sc1) \<and>
     sc1 (CHR ''E'') = sc1 (CHR ''I'') \<and> sc1 (CHR ''S'') = sc1 (CHR ''N'') \<and>
     sc1 (CHR ''T'') = sc1 (CHR ''F'') \<and> sc1 (CHR ''J'') = sc1 (CHR ''P'') \<and>
     m1 ! 0 = CHR ''E'' \<and> m1 ! 1 = CHR ''S'' \<and> m1 ! 2 = CHR ''T'' \<and> m1 ! 3 = CHR ''J'' \<and>
     run_analysis (replicate 12 (PyStr (replicate 20 0x61))) = Inr (m2, sc2, conf) \<and>
     sc2 (CHR ''E'') = sc2 (CHR ''I'') \<and> sc2 (CHR ''S'') = sc2 (CHR ''N'') \<and>
     sc2 (CHR ''T'') = sc2 (CHR ''F'') \<and> sc2 (CHR ''J'') = sc2 (CHR ''P'') \<and>
     m2 ! 0 = CHR ''E'' \<and> m2 ! 1 = CHR ''S'' \<and> m2 ! 2 = CHR ''T'' \<and> m2 ! 3 = CHR ''J''"
proof -
  let ?a = "replicate 20 (0x61 :: nat)"
  let ?xs = "replicate 12 (PyStr ?a)"
  obtain side score where a: "analyze_single_answer ?a ''EI'' = Inr (init_scores, side, score)"
    by (simp add: analyze_single_answer_def score_answer_plain plain_example Let_def)
  obtain m1 where p: "calculate_partial_mbti ?xs = (m1, init_scores)"
    by (simp add: calculate_partial_mbti_def partial_loop_plain plain_session Let_def)
  obtain m2 conf where r: "run_analysis ?xs = Inr (m2, init_scores, conf)"
    by (simp add: run_analysis_def run_loop_plain plain_session Let_def)
  have len: "length ?xs = 12" by simp
  note t = tie_break_first_trait [of ?a "CHR ''E''" "CHR ''I''" ?xs]
  from t a have "side = CHR ''E''" by (simp add: init_scores_def)
  moreover from t p len
  have "m1 ! 0 = CHR ''E'' \<and> m1 ! 1 = CHR ''S'' \<and> m1 ! 2 = CHR ''T'' \<and> m1 ! 3 = CHR ''J''"
    by (simp add: init_scores_def)
  moreover from t r
  have "m2 ! 0 = CHR ''E'' \<and> m2 ! 1 = CHR ''S'' \<and> m2 ! 2 = CHR ''T'' \<and> m2 ! 3 = CHR ''J''"
    by (simp add: init_scores_def)
  ultimately show ?thesis
    using a p r by (simp add: init_scores_def)
qed

text \<open>
  C1 as stated fails: on a tie the second trait never wins. A plain answer of twenty
  letters \<^verbatim>\<open>a\<close> scores nothing, and the three scorers pick E, S, T and J.
\<close>

theorem tie_break_counterexample:
  "analyze_single_answer (replicate 20 0x61) ''EI'' = Inr (init_scores, CHR ''E'', 0) \<and>
   init_scores (CHR ''E'') = init_scores (CHR ''I'') \<and>
   analyze_single_answer (replicate 20 0x61) ''SN'' = Inr (init_scores, CHR ''S'', 0) \<and>
   analyze_single_answer (replicate 20 0x61) ''TF'' = Inr (init_scores, CHR ''T'', 0) \<and>
   analyze_single_answer (replicate 20 0x61) ''JP'' = Inr (init_scores, CHR ''J'', 0) \<and>
   calculate_partial_mbti (replicate 12 (PyStr (replicate 20 0x61))) = (''ESTJ'', init_scores) \<and>
   fst (calculate_partial_mbti (replicate 3 (PyStr (replicate 20 0x61)))) = ''EXXX'' \<and>
   run_analysis (replicate 12 (PyStr (replicate 20 0x61))) =
     Inr (''ESTJ'', init_scores,
          [(''EI'', get_conf 0 0), (''SN'', get_conf 0 0), (''TF'', get_conf 0 0),
           (''JP'', get_conf 0 0)])"
  by (simp add: analyze_single_answer_def score_answer_plain plain_example
      calculate_partial_mbti_def partial_loop_plain run_analysis_def run_loop_plain
      plain_session Let_def init_scores_def)

section \<open>Style-correction gating\<close>

lemma score_answer_cases:
  "score_answer d ans sc =
     (if snd (match_all d ans sc) then fst (match_all d ans sc)
      else apply_style_correction ans d sc)"
  by (simp add: score_answer_def match_all_no_hit Let_def)

lemma partial_step_text:
  "partial_step i (PyStr ans) sc =
     (if i < 12 then score_answer (get_dimension_for_question (int i)) ans sc else sc)"
  by (simp add: partial_step_def get_dimension_for_question_def Let_def)

lemma run_step_text:
  "run_step i (PyStr ans) sc = Inr (score_answer (get_dimension_for_question_v1 (int i)) ans sc)"
  by (simp add: run_step_def get_dimension_for_question_v1_def Let_def)

text \<open>
  C2 (as amended). Whatever the dimension, EI included: when the keyword loop and the
  regular-expression rules match nothing they leave the accumulator as it was and the
  style correction is the only contribution of the answer; when they match, the style
  correction is skipped. The three scorers all score a text answer this way.
\<close>

theorem style_gating:
  "(\<not> snd (match_all d ans sc) \<longrightarrow>
      fst (match_all d ans sc) = sc \<and> score_answer d ans sc = apply_style_correction ans d sc) \<and>
   (snd (match_all d ans sc) \<longrightarrow> score_answer d ans sc = fst (match_all d ans sc)) \<and>
   (\<exists>side score. analyze_single_answer ans [t1, t2] =
      Inr (score_answer [t1, t2] ans init_scores, side, score)) \<and>
   partial_step i (PyStr ans) sc =
     (if i < 12 then score_answer (get_dimension_for_question (int i)) ans sc else sc) \<and>
   run_step i (PyStr ans) sc = Inr (score_answer (get_dimension_for_question_v1 (int i)) ans sc)"
  by (simp add: score_answer_cases match_all_no_hit partial_step_text run_step_text
      analyze_single_answer_def Let_def)

lemma kwE_total_E: "kw_total DICTIONARY_EI_E [0xED, 0x2020, 0xA1] = 3"
  by (simp add: kw_total_def DICTIONARY_EI_E_def)

lemma kwE_total_I: "kw_total DICTIONARY_EI_I [0xED, 0x2020, 0xA1] = 0"
  by (simp add: kw_total_def DICTIONARY_EI_I_def)

lemma kwE_hit: "kw_hit DICTIONARY_EI_E [0xED, 0x2020, 0xA1]"
  by (simp add: kw_hit_def DICTIONARY_EI_E_def)

lemma kwE_match:
  "match_all ''EI'' [0xED, 0x2020, 0xA1] init_scores = (init_scores(CHR ''E'' := 3), True)"
  by (simp add: match_all_eq lexicon_total_def lexicon_hit_def lex_total_def lex_hit_def
      DICTIONARY_def kwE_total_E kwE_total_I kwE_hit regex_total_def rule_total_def regex_hit_def
      init_scores_def fun_eq_iff)

lemma empty_SN_match: "match_all ''SN'' [] init_scores = (init_scores, False)"
  by (simp add: match_all_eq plain_lexicon_hit plain_regex_hit lexicon_no_hit regex_no_hit
      plain_def)

theorem style_gating_witness:
  "snd (match_all ''EI'' [0xED, 0x2020, 0xA1] init_scores) \<and>
   score_answer ''EI'' [0xED, 0x2020, 0xA1] init_scores =
     fst (match_all ''EI'' [0xED, 0x2020, 0xA1] init_scores) \<and>
   \<not> snd (match_all ''SN'' [] init_scores) \<and>
   fst (match_all ''SN'' [] init_scores) = init_scores \<and>
   score_answer ''SN'' [] init_scores = apply_style_correction [] ''SN'' init_scores"
  using style_gating [of "''EI''" "[0xED, 0x2020, 0xA1]" init_scores "CHR ''E''" "CHR ''I''" 0]
    style_gating [of "''SN''" "[]" init_scores "CHR ''S''" "CHR ''N''" 3]
  by (simp add: kwE_match empty_SN_match)

text \<open>
  C2 as stated fails for EI: an EI answer that holds a keyword gets no style correction.
  The three code points below are the twentieth keyword of the E table, of weight 3
  (source line 12). The answer has 3 characters, fewer than 20; the style correction,
  had it run, would have given I one point, and the scorer returns I = 0.
\<close>

theorem style_gating_EI_counterexample:
  "snd (match_all ''EI'' [0xED, 0x2020, 0xA1] init_scores) \<and>
   analyze_single_answer [0xED, 0x2020, 0xA1] ''EI'' =
     Inr (init_scores(CHR ''E'' := 3), CHR ''E'', 3) \<and>
   (init_scores(CHR ''E'' := 3)) (CHR ''I'') = 0 \<and>
   apply_style_correction [0xED, 0x2020, 0xA1] ''EI''
     (fst (match_all ''EI'' [0xED, 0x2020, 0xA1] init_scores)) (CHR ''I'') = 1"
  by (simp add: analyze_single_answer_def score_answer_cases kwE_match Let_def
      apply_style_correction_def style_EI_def add_score_def init_scores_apply)

section \<open>The two definitions of the single-answer scorer\<close>






text \<open>
  On the empty dimension name, which the resolver returns from index 12 on, the two
  definitions of \<^verbatim>\<open>analyze_single_answer\<close> do differ: the first falls into its last
  branch and answers J, the second fails to unpack the name.
\<close>

lemma unknown_dimension_handling:
  "fst (snd (analyze_single_answer_v1 ans '''')) = CHR ''J'' \<and>
   analyze_single_answer ans '''' = Inl ValueError"
  by (simp add: analyze_single_answer_v1_def analyze_single_answer_def match_lexicon_def
      DICTIONARY_def apply_style_correction_def init_scores_def Let_def)

section \<open>Partial-mode label\<close>

text \<open>
  C7. The partial label has four characters in the order EI, SN, TF, JP. A position holds
  the winning trait of its dimension once the number of answers has reached 3, 6, 9 and
  12 respectively, and \<^verbatim>\<open>X\<close> before that. With five answers the first character is E or
  I and the other three are \<^verbatim>\<open>X\<close>.
\<close>

theorem partial_label_shape:
  "(let m = fst (calculate_partial_mbti answers);
        sc = snd (calculate_partial_mbti answers);
        n = length answers
    in m = [if 3 \<le> n then (if sc (CHR ''E'') \<ge> sc (CHR ''I'') then CHR ''E'' else CHR ''I'')
            else CHR ''X'',
            if 6 \<le> n then (if sc (CHR ''S'') \<ge> sc (CHR ''N'') then CHR ''S'' else CHR ''N'')
            else CHR ''X'',
            if 9 \<le> n then (if sc (CHR ''T'') \<ge> sc (CHR ''F'') then CHR ''T'' else CHR ''F'')
            else CHR ''X'',
            if 12 \<le> n then (if sc (CHR ''J'') \<ge> sc (CHR ''P'') then CHR ''J'' else CHR ''P'')
            else CHR ''X''] \<and>
       length m = 4 \<and>
       (n = 5 \<longrightarrow> (m ! 0 = CHR ''E'' \<or> m ! 0 = CHR ''I'') \<and> drop 1 m = ''XXX''))"
proof -
  obtain m sc where r: "calculate_partial_mbti answers = (m, sc)"
    by (cases "calculate_partial_mbti answers")
  from calculate_partial_mbti_label [OF r] r show ?thesis
    by (simp add: Let_def)
qed

theorem partial_label_shape_witness:
  "length [PyStr [0xED, 0x2020, 0xA1], PyNone, PyStr [], PyInt 7, PyStr (replicate 20 0x61)] = 5 \<and>
   (fst (calculate_partial_mbti
       [PyStr [0xED, 0x2020, 0xA1], PyNone, PyStr [], PyInt 7, PyStr (replicate 20 0x61)]) ! 0 = CHR ''E'' \<or>
    fst (calculate_partial_mbti
       [PyStr [0xED, 0x2020, 0xA1], PyNone, PyStr [], PyInt 7, PyStr (replicate 20 0x61)]) ! 0 = CHR ''I'') \<and>
   drop 1 (fst (calculate_partial_mbti
       [PyStr [0xED, 0x2020, 0xA1], PyNone, PyStr [], PyInt 7, PyStr (replicate 20 0x61)])) = ''XXX''"
  using partial_label_shape
    [of "[PyStr [0xED, 0x2020, 0xA1], PyNone, PyStr [], PyInt 7, PyStr (replicate 20 0x61)]"]
  by (simp add: Let_def)

section \<open>Entries that are not text\<close>

text \<open>
  C9. \<^verbatim>\<open>calculate_partial_mbti\<close> guards every use of an entry with
  \<^verbatim>\<open>isinstance(ans, str)\<close>: an entry that is not a string leaves the scores as they are
  and still counts towards the thresholds. \<^verbatim>\<open>run_analysis\<close> has no such guard, and a
  twelve-entry session whose first entry is \<^verbatim>\<open>None\<close> ends in \<^verbatim>\<open>TypeError\<close>.
\<close>

theorem run_analysis_non_text_raises:
  "run_analysis (PyNone # replicate 11 (PyStr (replicate 20 0x61))) = Inl TypeError \<and>
   calculate_partial_mbti (PyNone # replicate 11 (PyStr (replicate 20 0x61))) =
     (''ESTJ'', init_scores)"
proof -
  have "run_loop 0 (PyNone # replicate 11 (PyStr (replicate 20 0x61))) init_scores = Inl TypeError"
    by (rule run_loop_non_text) simp
  moreover have "partial_loop 0 (PyNone # replicate 11 (PyStr (replicate 20 0x61))) init_scores
      = init_scores"
    by (simp add: partial_step_non_text partial_loop_plain plain_session)
  ultimately show ?thesis
    by (simp add: run_analysis_def calculate_partial_mbti_def Let_def init_scores_apply)
qed

section \<open>Confidence\<close>









lemma get_conf_spec: "get_conf a b = spec_confidence (max a b) (min a b)"
  by (simp add: get_conf_def spec_confidence_def max_def min_def abs_minus_commute add.commute)

text \<open>
  C5. In final mode a session of text answers returns, and the confidence reported for
  each of the four dimensions is the specification's formula applied to the totals of that
  dimension's winning and losing trait.
\<close>

theorem final_confidence:
  "(list_all (\<lambda>a. \<exists>s. a = PyStr s) answers \<longrightarrow> (\<exists>r. run_analysis answers = Inr r)) \<and>
   (\<forall>m sc conf. run_analysis answers = Inr (m, sc, conf) \<longrightarrow>
      conf =
        [(''EI'', spec_confidence (max (sc (CHR ''E'')) (sc (CHR ''I'')))
                                  (min (sc (CHR ''E'')) (sc (CHR ''I'')))),
         (''SN'', spec_confidence (max (sc (CHR ''S'')) (sc (CHR ''N'')))
                                  (min (sc (CHR ''S'')) (sc (CHR ''N'')))),
         (''TF'', spec_confidence (max (sc (CHR ''T'')) (sc (CHR ''F'')))
                                  (min (sc (CHR ''T'')) (sc (CHR ''F'')))),
         (''JP'', spec_confidence (max (sc (CHR ''J'')) (sc (CHR ''P'')))
                                  (min (sc (CHR ''J'')) (sc (CHR ''P''))))])"
proof (intro conjI allI impI)
  assume "list_all (\<lambda>a. \<exists>s. a = PyStr s) answers"
  from run_loop_text [OF this, of 0 init_scores] show "\<exists>r. run_analysis answers = Inr r"
    by (auto simp: run_analysis_def Let_def)
next
  fix m sc conf
  assume "run_analysis answers = Inr (m, sc, conf)"
  from run_analysis_label [OF this] show "conf =
        [(''EI'', spec_confidence (max (sc (CHR ''E'')) (sc (CHR ''I'')))
                                  (min (sc (CHR ''E'')) (sc (CHR ''I'')))),
         (''SN'', spec_confidence (max (sc (CHR ''S'')) (sc (CHR ''N'')))
                                  (min (sc (CHR ''S'')) (sc (CHR ''N'')))),
         (''TF'', spec_confidence (max (sc (CHR ''T'')) (sc (CHR ''F'')))
                                  (min (sc (CHR ''T'')) (sc (CHR ''F'')))),
         (''JP'', spec_confidence (max (sc (CHR ''J'')) (sc (CHR ''P'')))
                                  (min (sc (CHR ''J'')) (sc (CHR ''P''))))]"
    by (simp add: get_conf_spec)
qed

lemma run_loop_example:
  "run_loop 0 (PyStr [0xED, 0x2020, 0xA1] # replicate 11 (PyStr (replicate 20 0x61))) init_scores
     = Inr (init_scores(CHR ''E'' := 3))"
  by (simp add: run_step_def score_answer_cases kwE_match run_loop_plain plain_session Let_def)

theorem final_confidence_witness:
  "list_all (\<lambda>a. \<exists>s. a = PyStr s)
     (PyStr [0xED, 0x2020, 0xA1] # replicate 11 (PyStr (replicate 20 0x61))) \<and>
   run_analysis (PyStr [0xED, 0x2020, 0xA1] # replicate 11 (PyStr (replicate 20 0x61))) =
     Inr (''ESTJ'', init_scores(CHR ''E'' := 3),
          [(''EI'', spec_confidence 3 0), (''SN'', spec_confidence 0 0),
           (''TF'', spec_confidence 0 0), (''JP'', spec_confidence 0 0)])"
proof -
  let ?xs = "PyStr [0xED, 0x2020, 0xA1] # replicate 11 (PyStr (replicate 20 0x61))"
  have all_text: "list_all (\<lambda>a. \<exists>s. a = PyStr s) ?xs" by (simp add: list_all_iff)
  with final_confidence [of ?xs] obtain m sc conf where
    r: "run_analysis ?xs = Inr (m, sc, conf)" by (metis prod_cases3)
  with run_loop_example have sc: "sc = init_scores(CHR ''E'' := 3)"
    by (simp add: run_analysis_def Let_def)
  from r run_loop_example have m: "m = ''ESTJ''"
    by (simp add: run_analysis_def Let_def init_scores_apply)
  from final_confidence [of ?xs] r sc have
    "conf = [(''EI'', spec_confidence 3 0), (''SN'', spec_confidence 0 0),
             (''TF'', spec_confidence 0 0), (''JP'', spec_confidence 0 0)]"
    by (simp add: init_scores_apply)
  with all_text r sc m show ?thesis by simp
qed

section \<open>Extending an answer with a keyword\<close>

lemma kw_total_mono:
  "list_all (\<lambda>(word, w). 0 \<le> w) ks \<Longrightarrow> sublist a b \<Longrightarrow> kw_total ks a \<le> kw_total ks b"
proof (induction ks)
  case Nil
  then show ?case by (simp add: kw_total_def)
next
  case (Cons p ks)
  obtain word w where p: "p = (word, w)" by (cases p)
  from Cons.prems p have w: "0 \<le> w" by simp
  have "(if py_in word a then w else 0) \<le> (if py_in word b then w else 0)"
    using w py_in_mono [OF _ Cons.prems(2), of word] by auto
  moreover from Cons have "kw_total ks a \<le> kw_total ks b" by simp
  ultimately show ?case by (simp add: kw_total_def p)
qed

lemma kw_total_nonneg: "list_all (\<lambda>(word, w). 0 \<le> w) ks \<Longrightarrow> 0 \<le> kw_total ks a"
  by (induction ks) (auto simp: kw_total_def)

lemma kw_total_ge:
  "list_all (\<lambda>(word, w). 0 \<le> w) ks \<Longrightarrow> (k, w) \<in> set ks \<Longrightarrow> py_in k b \<Longrightarrow> w \<le> kw_total ks b"
proof (induction ks)
  case Nil
  then show ?case by simp
next
  case (Cons p ks)
  obtain word v where p: "p = (word, v)" by (cases p)
  from Cons.prems(1) p have v: "0 \<le> v" and rest: "list_all (\<lambda>(word, w). 0 \<le> w) ks" by simp_all
  have split: "kw_total (p # ks) b = (if py_in word b then v else 0) + kw_total ks b"
    by (simp add: kw_total_def p)
  show ?case
  proof (cases "(k, w) = p")
    case True
    with p Cons.prems(3) kw_total_nonneg [OF rest, of b] split show ?thesis by simp
  next
    case False
    with Cons.prems(2) have "(k, w) \<in> set ks" by simp
    from Cons.IH [OF rest this Cons.prems(3)] v split show ?thesis by simp
  qed
qed

lemma kw_hit_intro: "(k, w) \<in> set ks \<Longrightarrow> py_in k b \<Longrightarrow> kw_hit ks b"
  by (auto simp: kw_hit_def list_ex_iff)

lemma kw_hit_mono: "sublist a b \<Longrightarrow> kw_hit ks a \<Longrightarrow> kw_hit ks b"
  by (auto simp: kw_hit_def list_ex_iff dest: py_in_mono)

lemma lex_total_mono:
  "weights_nonneg trs \<Longrightarrow> sublist a b \<Longrightarrow> lex_total trs a x \<le> lex_total trs b x"
proof (induction trs)
  case Nil
  then show ?case by (simp add: lex_total_def)
next
  case (Cons p trs)
  obtain t ks where p: "p = (t, ks)" by (cases p)
  from Cons.prems(1) p have ks: "list_all (\<lambda>(word, w). 0 \<le> w) ks" and rest: "weights_nonneg trs"
    by (simp_all add: weights_nonneg_def)
  from Cons.IH [OF rest Cons.prems(2)] kw_total_mono [OF ks Cons.prems(2)] show ?case
    by (simp add: lex_total_def p)
qed

lemma lex_total_nonneg: "weights_nonneg trs \<Longrightarrow> 0 \<le> lex_total trs a x"
proof (induction trs)
  case Nil
  then show ?case by (simp add: lex_total_def)
next
  case (Cons p trs)
  obtain t ks where p: "p = (t, ks)" by (cases p)
  from Cons.prems(1) p have ks: "list_all (\<lambda>(word, w). 0 \<le> w) ks" and rest: "weights_nonneg trs"
    by (simp_all add: weights_nonneg_def)
  from Cons.IH [OF rest] kw_total_nonneg [OF ks, of a] show ?case
    by (simp add: lex_total_def p)
qed

lemma lex_total_ge:
  "weights_nonneg trs \<Longrightarrow> (x, ks) \<in> set trs \<Longrightarrow> (k, w) \<in> set ks \<Longrightarrow> py_in k b
     \<Longrightarrow> w \<le> lex_total trs b x"
proof (induction trs)
  case Nil
  then show ?case by simp
next
  case (Cons p trs)
  obtain t ks' where p: "p = (t, ks')" by (cases p)
  from Cons.prems(1) p have ks': "list_all (\<lambda>(word, w). 0 \<le> w) ks'" and rest: "weights_nonneg trs"
    by (simp_all add: weights_nonneg_def)
  have split: "lex_total (p # trs) b x = (if t = x then kw_total ks' b else 0) + lex_total trs b x"
    by (simp add: lex_total_def p)
  show ?case
  proof (cases "(x, ks) = p")
    case True
    with p have "t = x" "ks' = ks" by simp_all
    with kw_total_ge [OF ks' _ Cons.prems(4), of w] Cons.prems(3) lex_total_nonneg [OF rest, of b x]
      split show ?thesis by simp
  next
    case False
    with Cons.prems(2) have "(x, ks) \<in> set trs" by simp
    from Cons.IH [OF rest this Cons.prems(3,4)] kw_total_nonneg [OF ks', of b] split
    show ?thesis by simp
  qed
qed

lemma lex_hit_intro: "(x, ks) \<in> set trs \<Longrightarrow> (k, w) \<in> set ks \<Longrightarrow> py_in k b \<Longrightarrow> lex_hit trs b"
  by (auto simp: lex_hit_def list_ex_iff dest: kw_hit_intro)

lemma lex_hit_mono: "sublist a b \<Longrightarrow> lex_hit trs a \<Longrightarrow> lex_hit trs b"
  by (auto simp: lex_hit_def list_ex_iff dest: kw_hit_mono)

lemma DICTIONARY_nonneg: "map_of DICTIONARY d = Some trs \<Longrightarrow> weights_nonneg trs"
proof -
  assume d: "map_of DICTIONARY d = Some trs"
  have "0 \<le> w" if "(t, ks) \<in> set trs" "(word, w) \<in> set ks" for t ks word w
    using DICTIONARY_weights [OF d that] by simp
  then show ?thesis
    by (auto simp: weights_nonneg_def list_all_iff)
qed

lemma lexicon_total_mono: "sublist a b \<Longrightarrow> lexicon_total d a x \<le> lexicon_total d b x"
  by (auto simp: lexicon_total_def lex_total_mono DICTIONARY_nonneg split: option.splits)

lemma lexicon_hit_mono: "sublist a b \<Longrightarrow> lexicon_hit d a \<Longrightarrow> lexicon_hit d b"
  by (auto simp: lexicon_hit_def split: option.splits dest: lex_hit_mono)

lemma re_search_mono: "sublist a b \<Longrightarrow> re_search pat a \<Longrightarrow> re_search pat b"
  by (auto simp: re_search_def list_ex_iff dest: py_in_mono)

lemma rule_total_mono:
  "0 \<le> w \<Longrightarrow> sublist a b \<Longrightarrow> rule_total d0 pat t w d a x \<le> rule_total d0 pat t w d b x"
  by (auto simp: rule_total_def dest: re_search_mono)

lemma rule_total_nonneg: "0 \<le> w \<Longrightarrow> 0 \<le> rule_total d0 pat t w d a x"
  by (simp add: rule_total_def)

lemma regex_total_mono: "sublist a b \<Longrightarrow> regex_total d a x \<le> regex_total d b x"
  unfolding regex_total_def by (intro add_mono rule_total_mono) simp_all

lemma regex_total_nonneg: "0 \<le> regex_total d a x"
  unfolding regex_total_def by (intro add_nonneg_nonneg rule_total_nonneg) simp_all

lemma regex_hit_mono: "sublist a b \<Longrightarrow> regex_hit d a \<Longrightarrow> regex_hit d b"
  by (auto simp: regex_hit_def dest: re_search_mono)

lemma style_upper: "apply_style_correction a d sc x \<le> sc x + 2"
  by (cases "d = ''EI''"; cases "d = ''SN''"; cases "d = ''TF''"; cases "d = ''JP''")
     (simp_all add: apply_style_correction_def style_EI_def style_SN_def style_TF_def
        style_JP_def add_score_def Let_def)

lemma score_answer_extend:
  assumes dict: "map_of DICTIONARY d = Some trs" "(x, ks) \<in> set trs" "(k, w) \<in> set ks"
    and sub: "sublist a b" and occ: "py_in k b"
  shows "score_answer d a sc x \<le> score_answer d b sc x"
proof -
  have w2: "2 \<le> w" using dict by (rule DICTIONARY_weights)
  have hit_b: "lexicon_hit d b"
    using dict occ by (simp add: lexicon_hit_def lex_hit_intro)
  have lex_b: "w \<le> lexicon_total d b x"
    using dict occ by (simp add: lexicon_total_def lex_total_ge DICTIONARY_nonneg)
  have b: "score_answer d b sc x = sc x + lexicon_total d b x + regex_total d b x"
    using hit_b by (simp add: score_answer_cases match_all_eq)
  show ?thesis
  proof (cases "snd (match_all d a sc)")
    case True
    then have "score_answer d a sc x = sc x + lexicon_total d a x + regex_total d a x"
      by (simp add: score_answer_cases match_all_eq)
    with b lexicon_total_mono [OF sub, of d x] regex_total_mono [OF sub, of d x]
    show ?thesis by simp
  next
    case False
    then have "score_answer d a sc x = apply_style_correction a d sc x"
      by (simp add: score_answer_cases)
    with style_upper [of a d sc x] b w2 lex_b regex_total_nonneg [of d b x]
    show ?thesis by simp
  qed
qed

lemma analyze_single_answer_scores:
  "analyze_single_answer ans d = Inr (sc, side, score) \<Longrightarrow> sc = score_answer d ans init_scores"
  by (auto simp: analyze_single_answer_def Let_def split: list.splits)

text \<open>
  C8 (as amended). Let \<open>k\<close> be a keyword of trait \<open>x\<close> in the table of dimension \<open>d\<close>.
  Appending \<open>k\<close> to an answer, or putting it in front, never lowers the score the answer
  gives to \<open>x\<close>: in the score of one answer within a session, in the keyword loop alone,
  and in the result of \<^verbatim>\<open>analyze_single_answer\<close>. Nothing is said of the opposing
  trait.
\<close>

theorem keyword_extension_monotone:
  "map_of DICTIONARY d = Some trs \<Longrightarrow> (x, ks) \<in> set trs \<Longrightarrow> (k, w) \<in> set ks \<Longrightarrow>
     score_answer d ans sc x \<le> score_answer d (ans @ k) sc x \<and>
     score_answer d ans sc x \<le> score_answer d (k @ ans) sc x \<and>
     fst (match_lexicon d ans (sc, m)) x \<le> fst (match_lexicon d (ans @ k) (sc, m)) x \<and>
     sc x + w \<le> fst (match_lexicon d (ans @ k) (sc, m)) x \<and>
     (\<forall>sc1 side1 score1 sc2 side2 score2.
        analyze_single_answer ans d = Inr (sc1, side1, score1) \<and>
        analyze_single_answer (ans @ k) d = Inr (sc2, side2, score2) \<longrightarrow> sc1 x \<le> sc2 x)"
proof -
  assume dict: "map_of DICTIONARY d = Some trs" "(x, ks) \<in> set trs" "(k, w) \<in> set ks"
  have app: "sublist ans (ans @ k)" "py_in k (ans @ k)"
    by (simp_all add: py_in_self_append)
  have pre: "sublist ans (k @ ans)" "py_in k (k @ ans)"
    by (simp_all add: py_in_self_prepend)
  have 1: "score_answer d ans sc x \<le> score_answer d (ans @ k) sc x" for sc
    using dict app by (rule score_answer_extend)
  have 2: "score_answer d ans sc x \<le> score_answer d (k @ ans) sc x"
    using dict pre by (rule score_answer_extend)
  have 3: "fst (match_lexicon d ans (sc, m)) x \<le> fst (match_lexicon d (ans @ k) (sc, m)) x"
    using lexicon_total_mono [OF app(1), of d x] by (simp add: match_lexicon_eq)
  have 4: "sc x + w \<le> fst (match_lexicon d (ans @ k) (sc, m)) x"
    using dict app(2) by (simp add: match_lexicon_eq lexicon_total_def lex_total_ge DICTIONARY_nonneg)
  have 5: "sc1 x \<le> sc2 x"
    if "analyze_single_answer ans d = Inr (sc1, side1, score1) \<and>
        analyze_single_answer (ans @ k) d = Inr (sc2, side2, score2)"
    for sc1 side1 score1 sc2 side2 score2
    using that 1 [of init_scores] by (auto dest!: analyze_single_answer_scores)
  from 1 [of sc] 2 3 4 5 show ?thesis by blast
qed

lemma kwN_total_S: "kw_total DICTIONARY_SN_S [0xEB, 0xB3, 0xB8, 0xEC, 0xA7, 0x2C6] = 3"
  by (simp add: kw_total_def DICTIONARY_SN_S_def)

lemma kwN_total_N: "kw_total DICTIONARY_SN_N [0xEB, 0xB3, 0xB8, 0xEC, 0xA7, 0x2C6] = 5"
  by (simp add: kw_total_def DICTIONARY_SN_N_def)

lemma kwN_hit: "kw_hit DICTIONARY_SN_N [0xEB, 0xB3, 0xB8, 0xEC, 0xA7, 0x2C6]"
  by (simp add: kw_hit_def DICTIONARY_SN_N_def)

lemma kwN_regex:
  "\<not> re_search pattern_SN_N [0xEB, 0xB3, 0xB8, 0xEC, 0xA7, 0x2C6]"
  "\<not> re_search pattern_SN_S [0xEB, 0xB3, 0xB8, 0xEC, 0xA7, 0x2C6]"
  by (simp_all add: re_search_def pattern_SN_N_def pattern_SN_S_def)

lemma kwN_member: "([0xEB, 0xB3, 0xB8, 0xEC, 0xA7, 0x2C6], 5) \<in> set DICTIONARY_SN_N"
  by (simp add: DICTIONARY_SN_N_def)

lemma SN_tables:
  "map_of DICTIONARY ''SN'' = Some [(CHR ''S'', DICTIONARY_SN_S), (CHR ''N'', DICTIONARY_SN_N)]"
  by (simp add: DICTIONARY_def)

lemma kwN_match:
  "match_all ''SN'' [0xEB, 0xB3, 0xB8, 0xEC, 0xA7, 0x2C6] init_scores =
     (init_scores(CHR ''S'' := 3, CHR ''N'' := 5), True)"
  by (simp add: match_all_eq lexicon_total_def lexicon_hit_def lex_total_def lex_hit_def
      SN_tables kwN_total_S kwN_total_N kwN_hit kwN_regex regex_total_def rule_total_def
      regex_hit_def init_scores_def fun_eq_iff)

lemma empty_SN_score: "score_answer ''SN'' [] init_scores = init_scores"
  by (simp add: score_answer_cases empty_SN_match apply_style_correction_def style_SN_def
      plain_sum_in non_ascii_markers plain_def Let_def)

theorem keyword_extension_monotone_witness:
  "map_of DICTIONARY ''SN'' = Some [(CHR ''S'', DICTIONARY_SN_S), (CHR ''N'', DICTIONARY_SN_N)] \<and>
   (CHR ''N'', DICTIONARY_SN_N) \<in> set [(CHR ''S'', DICTIONARY_SN_S), (CHR ''N'', DICTIONARY_SN_N)] \<and>
   ([0xEB, 0xB3, 0xB8, 0xEC, 0xA7, 0x2C6], 5) \<in> set DICTIONARY_SN_N \<and>
   score_answer ''SN'' [] init_scores (CHR ''N'')
     \<le> score_answer ''SN'' ([] @ [0xEB, 0xB3, 0xB8, 0xEC, 0xA7, 0x2C6]) init_scores (CHR ''N'') \<and>
   init_scores (CHR ''N'') + 5
     \<le> fst (match_lexicon ''SN'' ([] @ [0xEB, 0xB3, 0xB8, 0xEC, 0xA7, 0x2C6]) (init_scores, False))
          (CHR ''N'')"
  using keyword_extension_monotone [of "''SN''"
      "[(CHR ''S'', DICTIONARY_SN_S), (CHR ''N'', DICTIONARY_SN_N)]" "CHR ''N''" DICTIONARY_SN_N
      "[0xEB, 0xB3, 0xB8, 0xEC, 0xA7, 0x2C6]" 5 "[]" init_scores False]
  by (simp add: SN_tables kwN_member)

lemma empty_SN_analyze: "analyze_single_answer [] ''SN'' = Inr (init_scores, CHR ''S'', 0)"
  by (simp add: analyze_single_answer_def empty_SN_score Let_def init_scores_apply)

lemma kwN_analyze:
  "analyze_single_answer [0xEB, 0xB3, 0xB8, 0xEC, 0xA7, 0x2C6] ''SN'' =
     Inr (init_scores(CHR ''S'' := 3, CHR ''N'' := 5), CHR ''N'', 5)"
  by (simp add: analyze_single_answer_def score_answer_cases kwN_match Let_def
      init_scores_apply)

lemma empty_SN_lexicon: "fst (match_lexicon ''SN'' [] (init_scores, False)) (CHR ''S'') = 0"
  by (simp add: match_lexicon_eq lexicon_no_hit plain_lexicon_hit plain_def init_scores_apply)

lemma kwN_lexicon:
  "fst (match_lexicon ''SN'' [0xEB, 0xB3, 0xB8, 0xEC, 0xA7, 0x2C6] (init_scores, False))
     (CHR ''S'') = 3"
  by (simp add: match_lexicon_eq lexicon_total_def lex_total_def SN_tables kwN_total_S
      init_scores_apply)

text \<open>
  C8 as stated fails for the opposing trait. The six code points below are the
  nineteenth keyword of the N table, of weight 5 (source line 52); their first three
  code points are the eighth keyword of the S table, of weight 3 (source line 34).
  Appending the N keyword to the empty answer raises the score of S, the opposing trait,
  from 0 to 3.
\<close>

theorem keyword_extension_counterexample:
  "([0xEB, 0xB3, 0xB8, 0xEC, 0xA7, 0x2C6], 5) \<in> set DICTIONARY_SN_N \<and>
   analyze_single_answer [] ''SN'' = Inr (init_scores, CHR ''S'', 0) \<and>
   init_scores (CHR ''S'') = 0 \<and>
   analyze_single_answer ([] @ [0xEB, 0xB3, 0xB8, 0xEC, 0xA7, 0x2C6]) ''SN'' =
     Inr (init_scores(CHR ''S'' := 3, CHR ''N'' := 5), CHR ''N'', 5) \<and>
   (init_scores(CHR ''S'' := 3, CHR ''N'' := 5)) (CHR ''S'') = 3 \<and>
   fst (match_lexicon ''SN'' [] (init_scores, False)) (CHR ''S'') = 0 \<and>
   fst (match_lexicon ''SN'' ([] @ [0xEB, 0xB3, 0xB8, 0xEC, 0xA7, 0x2C6]) (init_scores, False))
     (CHR ''S'') = 3"
  by (simp add: kwN_member empty_SN_analyze kwN_analyze empty_SN_lexicon kwN_lexicon
      init_scores_apply)

section \<open>Marker counts of the SN style correction\<close>

lemma sum_in_filter: "sum_in ws ans = int (length (filter (\<lambda>w. py_in w ans) ws))"
  by (induction ws) (simp_all add: sum_in_def)

lemma sum_in_card:
  "distinct ws \<Longrightarrow> sum_in ws ans = int (card {w \<in> set ws. py_in w ans})"
  by (simp add: sum_in_filter distinct_length_filter Int_def conj_commute)

lemma sum_in_le_length: "sum_in ws ans \<le> int (length ws)"
  by (simp add: sum_in_filter)

lemma markers_distinct: "distinct abstract_words" "distinct concrete_words"
  by (simp_all add: abstract_words_def concrete_words_def)

lemma markers_length: "length abstract_words = 6" "length concrete_words = 6"
  by (simp_all add: abstract_words_def concrete_words_def)

lemma style_SN_below_threshold:
  "sum_in abstract_words ans < 2 \<Longrightarrow> sum_in concrete_words ans < 2
     \<Longrightarrow> apply_style_correction ans ''SN'' sc = sc"
  by (simp add: apply_style_correction_def style_SN_def Let_def)

lemma repeated_not_in: "\<not> set w' \<subseteq> set w \<Longrightarrow> \<not> py_in w' (concat (replicate n w))"
proof
  assume ns: "\<not> set w' \<subseteq> set w" and "py_in w' (concat (replicate n w))"
  then have "set w' \<subseteq> set (concat (replicate n w))" by (intro py_in_set_mono)
  also have "\<dots> \<subseteq> set w" by auto
  finally show False using ns by simp
qed

lemma sum_in_Cons:
  "sum_in (w' # ws) ans = (if py_in w' ans then 1 else 0) + sum_in ws ans"
  "sum_in [] ans = 0"
  by (simp_all add: sum_in_def)

lemma repeated_marker_abstract:
  "w \<in> set (abstract_words @ concrete_words) \<Longrightarrow> sum_in abstract_words (concat (replicate n w)) < 2"
  unfolding abstract_words_def concrete_words_def
  by (auto simp: sum_in_Cons repeated_not_in)

lemma repeated_marker_concrete:
  "w \<in> set (abstract_words @ concrete_words) \<Longrightarrow> sum_in concrete_words (concat (replicate n w)) < 2"
  unfolding abstract_words_def concrete_words_def
  by (auto simp: sum_in_Cons repeated_not_in)

text \<open>
  C10. In the SN branch of the style correction the abstract and the concrete count are
  the numbers of distinct listed markers that occur in the answer, at most 6 each, however
  often a marker occurs. An answer made of one marker repeated any number of times stays
  below the threshold of 2 in both counts and gets no SN style bonus.
\<close>

theorem SN_marker_counts:
  "sum_in abstract_words ans = int (card {w \<in> set abstract_words. py_in w ans}) \<and>
   sum_in concrete_words ans = int (card {w \<in> set concrete_words. py_in w ans}) \<and>
   sum_in abstract_words ans \<le> 6 \<and> sum_in concrete_words ans \<le> 6 \<and>
   style_SN ans sc =
     (let sc = (if 2 \<le> card {w \<in> set abstract_words. py_in w ans}
                then add_score sc (CHR ''N'') 1 else sc)
      in if 2 \<le> card {w \<in> set concrete_words. py_in w ans}
         then add_score sc (CHR ''S'') 1 else sc) \<and>
   (\<forall>w \<in> set (abstract_words @ concrete_words). \<forall>n.
      sum_in abstract_words (concat (replicate n w)) < 2 \<and>
      sum_in concrete_words (concat (replicate n w)) < 2 \<and>
      apply_style_correction (concat (replicate n w)) ''SN'' sc = sc)"
proof -
  have a: "sum_in abstract_words ans = int (card {w \<in> set abstract_words. py_in w ans})"
    by (rule sum_in_card) (rule markers_distinct)
  have c: "sum_in concrete_words ans = int (card {w \<in> set concrete_words. py_in w ans})"
    by (rule sum_in_card) (rule markers_distinct)
  have la: "sum_in abstract_words ans \<le> 6"
    using sum_in_le_length [of abstract_words ans] by (simp add: markers_length)
  have lc: "sum_in concrete_words ans \<le> 6"
    using sum_in_le_length [of concrete_words ans] by (simp add: markers_length)
  have s: "style_SN ans sc =
     (let sc = (if 2 \<le> card {w \<in> set abstract_words. py_in w ans}
                then add_score sc (CHR ''N'') 1 else sc)
      in if 2 \<le> card {w \<in> set concrete_words. py_in w ans}
         then add_score sc (CHR ''S'') 1 else sc)"
    by (simp add: style_SN_def a c Let_def)
  have r: "\<forall>w \<in> set (abstract_words @ concrete_words). \<forall>n.
      sum_in abstract_words (concat (replicate n w)) < 2 \<and>
      sum_in concrete_words (concat (replicate n w)) < 2 \<and>
      apply_style_correction (concat (replicate n w)) ''SN'' sc = sc"
    by (intro ballI allI conjI style_SN_below_threshold repeated_marker_abstract
        repeated_marker_concrete)
  from a c la lc s r show ?thesis by (intro conjI)
qed

theorem SN_marker_counts_witness:
  "[0xEA, 0xB2, 0x192] \<in> set (abstract_words @ concrete_words) \<and>
   sum_in abstract_words (concat (replicate 5 [0xEA, 0xB2, 0x192])) < 2 \<and>
   sum_in concrete_words (concat (replicate 5 [0xEA, 0xB2, 0x192])) < 2 \<and>
   apply_style_correction (concat (replicate 5 [0xEA, 0xB2, 0x192])) ''SN'' init_scores
     = init_scores"
proof -
  have mem: "[0xEA, 0xB2, 0x192] \<in> set (abstract_words @ concrete_words)"
    by (simp add: abstract_words_def)
  from SN_marker_counts [of "[]" init_scores] have
    "\<forall>w \<in> set (abstract_words @ concrete_words). \<forall>n.
      sum_in abstract_words (concat (replicate n w)) < 2 \<and>
      sum_in concrete_words (concat (replicate n w)) < 2 \<and>
      apply_style_correction (concat (replicate n w)) ''SN'' init_scores = init_scores"
    by (elim conjE)
  with mem show ?thesis by blast
qed

end
